theory Spec2Isabelle
  imports Main
begin

section \<open>JavaScript values\<close>

text \<open>
  The adapter handles untyped JSON: tool arguments, JSON-RPC envelopes and the bodies
  the remote API answers with. A value is what \<^verbatim>\<open>JSON.parse\<close> can produce, plus
  \<^verbatim>\<open>undefined\<close> (the result of reading an absent property) and \<^verbatim>\<open>NaN\<close>
  (the result of arithmetic on \<^verbatim>\<open>undefined\<close>). Numbers are the integers and NaN:
  fractions, infinities and the rounding of doubles are not modelled. Strings are lists of
  code units below 256. An object is the list of its own properties in insertion order.
\<close>

datatype jsval =
    JUndefined
  | JNull
  | JBool bool
  | JNum int
  | JNaN
  | JStr string
  | JArr "jsval list"
  | JObj "(string \<times> jsval) list"

text \<open>
  A thrown value. \<open>Error m\<close> is \<^verbatim>\<open>new Error(m)\<close> of the source; \<open>TypeError\<close> and
  \<open>RangeError\<close> are raised by the language itself, and their wording is the engine's (V8's
  is used).
\<close>

datatype js_error = Error string | TypeError string | RangeError string

fun message :: "js_error \<Rightarrow> string" where
  "message (Error m) = m"
| "message (TypeError m) = m"
| "message (RangeError m) = m"

definition sbind :: "'e + 'a \<Rightarrow> ('a \<Rightarrow> 'e + 'b) \<Rightarrow> 'e + 'b" where
  "sbind m f = (case m of Inl e \<Rightarrow> Inl e | Inr v \<Rightarrow> f v)"

fun sequence :: "('e + 'a) list \<Rightarrow> 'e + 'a list" where
  "sequence [] = Inr []"
| "sequence (m # ms) =
     (case m of Inl e \<Rightarrow> Inl e
      | Inr v \<Rightarrow> (case sequence ms of Inl e \<Rightarrow> Inl e | Inr vs \<Rightarrow> Inr (v # vs)))"

subsection \<open>Decimal numerals\<close>

fun string_of_nat :: "nat \<Rightarrow> string" where
  "string_of_nat n =
     (if n < 10 then [char_of (48 + n)]
      else string_of_nat (n div 10) @ [char_of (48 + n mod 10)])"

declare string_of_nat.simps [simp del]

definition string_of_int :: "int \<Rightarrow> string" where
  "string_of_int i = (if i < 0 then CHR ''-'' # string_of_nat (nat (- i)) else string_of_nat (nat i))"

subsection \<open>typeof, truthiness, property reads\<close>

fun typeof :: "jsval \<Rightarrow> string" where
  "typeof JUndefined = ''undefined''"
| "typeof JNull = ''object''"
| "typeof (JBool _) = ''boolean''"
| "typeof (JNum _) = ''number''"
| "typeof JNaN = ''number''"
| "typeof (JStr _) = ''string''"
| "typeof (JArr _) = ''object''"
| "typeof (JObj _) = ''object''"

fun truthy :: "jsval \<Rightarrow> bool" where
  "truthy JUndefined = False"
| "truthy JNull = False"
| "truthy (JBool b) = b"
| "truthy (JNum n) = (n \<noteq> 0)"
| "truthy JNaN = False"
| "truthy (JStr s) = (s \<noteq> [])"
| "truthy (JArr _) = True"
| "truthy (JObj _) = True"

text \<open>\<^verbatim>\<open>a || b\<close>\<close>

definition js_or :: "jsval \<Rightarrow> jsval \<Rightarrow> jsval" where
  "js_or a b = (if truthy a then a else b)"

fun isArray :: "jsval \<Rightarrow> bool" where
  "isArray (JArr _) = True"
| "isArray _ = False"

fun nullish :: "jsval \<Rightarrow> bool" where
  "nullish JUndefined = True"
| "nullish JNull = True"
| "nullish _ = False"

text \<open>
  \<open>get v k\<close> is the read \<^verbatim>\<open>v.k\<close> on a value that is neither \<^verbatim>\<open>null\<close> nor
  \<^verbatim>\<open>undefined\<close>: an own property of an object, the length of an array or of a string,
  and \<^verbatim>\<open>undefined\<close> otherwise. The keys the source reads this way (\<^verbatim>\<open>limit\<close>,
  \<^verbatim>\<open>items\<close>, \<^verbatim>\<open>id\<close>, ...) are none of them inherited from a prototype.
  \<open>read_prop\<close> is the same read with the TypeError of a \<^verbatim>\<open>null\<close> or \<^verbatim>\<open>undefined\<close>
  receiver.
\<close>

fun get :: "jsval \<Rightarrow> string \<Rightarrow> jsval" where
  "get (JObj kvs) k = (case map_of kvs k of Some v \<Rightarrow> v | None \<Rightarrow> JUndefined)"
| "get (JArr xs) k = (if k = ''length'' then JNum (int (length xs)) else JUndefined)"
| "get (JStr s) k = (if k = ''length'' then JNum (int (length s)) else JUndefined)"
| "get _ k = JUndefined"

fun nullish_name :: "jsval \<Rightarrow> string" where
  "nullish_name JNull = ''null''"
| "nullish_name _ = ''undefined''"

definition cannot_read :: "jsval \<Rightarrow> string \<Rightarrow> js_error" where
  "cannot_read v k =
     TypeError (''Cannot read properties of '' @ nullish_name v @ '' (reading '' @ [CHR 0x27] @ k @ [CHR 0x27] @ '')'')"

definition read_prop :: "jsval \<Rightarrow> string \<Rightarrow> js_error + jsval" where
  "read_prop v k = (if nullish v then Inl (cannot_read v k) else Inr (get v k))"

definition not_a_function :: "string \<Rightarrow> js_error" where
  "not_a_function what = TypeError (what @ '' is not a function'')"

text \<open>
  \<open>obj_set\<close> is the assignment \<^verbatim>\<open>o[k] = v\<close> on an object whose property \<open>k\<close> is a
  plain data property: it replaces the value in place or appends the property.
\<close>

fun obj_set :: "(string \<times> jsval) list \<Rightarrow> string \<Rightarrow> jsval \<Rightarrow> (string \<times> jsval) list" where
  "obj_set [] k v = [(k, v)]"
| "obj_set ((k', v') # kvs) k v = (if k' = k then (k, v) # kvs else (k', v') # obj_set kvs k v)"

subsection \<open>Conversions\<close>

text \<open>
  \<^verbatim>\<open>Array.prototype.join\<close>: the separator between the elements' strings.
\<close>

fun join :: "string \<Rightarrow> string list \<Rightarrow> string" where
  "join sep [] = []"
| "join sep [s] = s"
| "join sep (s # t # ss) = s @ sep @ join sep (t # ss)"

text \<open>
  ToString, as a template literal, a property key and \<^verbatim>\<open>URLSearchParams.append\<close> apply
  it. An array is joined with commas, \<^verbatim>\<open>null\<close> and \<^verbatim>\<open>undefined\<close> elements giving the
  empty string. A parsed object has no callable \<^verbatim>\<open>toString\<close> of its own: it prints as
  \<^verbatim>\<open>[object Object]\<close> through the prototype, unless an own property shadows
  \<^verbatim>\<open>toString\<close>, which leaves no way to a primitive and raises a TypeError.
\<close>

fun ToString :: "jsval \<Rightarrow> js_error + string" where
  "ToString JUndefined = Inr ''undefined''"
| "ToString JNull = Inr ''null''"
| "ToString (JBool b) = Inr (if b then ''true'' else ''false'')"
| "ToString (JNum n) = Inr (string_of_int n)"
| "ToString JNaN = Inr ''NaN''"
| "ToString (JStr s) = Inr s"
| "ToString (JArr xs) =
     (case sequence (map (\<lambda>x. if nullish x then Inr [] else ToString x) xs) of
        Inl e \<Rightarrow> Inl e
      | Inr ss \<Rightarrow> Inr (join '','' ss))"
| "ToString (JObj kvs) =
     (if map_of kvs ''toString'' \<noteq> None then Inl (TypeError ''Cannot convert object to primitive value'')
      else Inr ''[object Object]'')"

text \<open>ToPrimitive: arrays and objects become their string, primitives stay.\<close>

definition ToPrimitive :: "jsval \<Rightarrow> js_error + jsval" where
  "ToPrimitive v =
     (case v of
        JArr _ \<Rightarrow> sbind (ToString v) (\<lambda>s. Inr (JStr s))
      | JObj _ \<Rightarrow> sbind (ToString v) (\<lambda>s. Inr (JStr s))
      | _ \<Rightarrow> Inr v)"

subsection \<open>Strings\<close>

text \<open>
  \<^verbatim>\<open>String.prototype.trim\<close> removes white space and line terminators at both ends:
  among the code units below 256 these are tab, line feed, vertical tab, form feed,
  carriage return, space and the no-break space.
\<close>

definition js_space :: "char \<Rightarrow> bool" where
  "js_space c = ((of_char c :: nat) \<in> {9, 10, 11, 12, 13, 32, 160})"

definition trim :: "string \<Rightarrow> string" where
  "trim s = rev (dropWhile js_space (rev (dropWhile js_space s)))"

text \<open>The order of \<^verbatim>\<open><\<close> on two strings: lexicographic on the code units.\<close>

fun str_lt :: "string \<Rightarrow> string \<Rightarrow> bool" where
  "str_lt [] [] = False"
| "str_lt [] (d # t) = True"
| "str_lt (c # s) [] = False"
| "str_lt (c # s) (d # t) =
     ((of_char c :: nat) < of_char d \<or> ((of_char c :: nat) = of_char d \<and> str_lt s t))"

section \<open>The runtime\<close>

text \<open>
  What the source takes from Node.js and does not define itself is a field of the runtime:
  the network (\<^verbatim>\<open>https.request\<close> with its response, error and timeout events), the
  JSON library, the conversion of a string to a number, and the clock. A claim proved for
  every runtime holds whatever these do.
\<close>

record requestOptions =
  hostname :: string
  port :: nat
  pathname :: string
  search :: "(string \<times> string) list"
  http_method :: string
  headers :: "(string \<times> string) list"
  body :: "string option"

text \<open>
  \<open>pathname\<close> and \<open>search\<close> are the two halves of \<^verbatim>\<open>path: url.pathname + url.search\<close>;
  \<open>search\<close> is kept as the entries appended to the \<^verbatim>\<open>URLSearchParams\<close>, in order, and
  \<open>pathname\<close> as the string handed to \<^verbatim>\<open>new URL\<close>: the percent-encoding and the
  normalisation of the URL library are not modelled. \<open>body\<close> is what \<^verbatim>\<open>req.write\<close>
  sent, if anything; \<open>http_method\<close> is the field \<^verbatim>\<open>method\<close>.

  One call of \<^verbatim>\<open>https.request\<close> ends in one of three ways: the response has ended
  (status, headers, the concatenated chunks), the request has emitted \<^verbatim>\<open>error\<close>, or the
  10 second timer has fired first.
\<close>

datatype http_outcome =
    Response nat "(string \<times> string) list" string
  | NetworkError js_error
  | Timeout

record runtime =
  https_request :: "requestOptions \<Rightarrow> http_outcome"
  JSON_parse :: "string \<Rightarrow> jsval option"
  JSON_stringify :: "jsval \<Rightarrow> string"
  JSON_stringify_pretty :: "jsval \<Rightarrow> string"
  StringToNumber :: "string \<Rightarrow> int option"
  Date_now :: int
  Date_toISOString :: "int \<Rightarrow> string"

text \<open>
  \<open>JSON_parse\<close> is \<open>None\<close> where \<^verbatim>\<open>JSON.parse\<close> throws. \<open>JSON_stringify\<close> is
  \<^verbatim>\<open>JSON.stringify(v)\<close> and \<open>JSON_stringify_pretty\<close> is \<^verbatim>\<open>JSON.stringify(v, null, 2)\<close>;
  the source hands them objects only. \<open>StringToNumber\<close> is \<open>None\<close> for NaN.
\<close>

subsection \<open>Arithmetic and comparison\<close>

fun ToNumber :: "runtime \<Rightarrow> jsval \<Rightarrow> int option" where
  "ToNumber rt JUndefined = None"
| "ToNumber rt JNull = Some 0"
| "ToNumber rt (JBool b) = Some (if b then 1 else 0)"
| "ToNumber rt (JNum n) = Some n"
| "ToNumber rt JNaN = None"
| "ToNumber rt (JStr s) = StringToNumber rt s"
| "ToNumber rt (JArr xs) = None"
| "ToNumber rt (JObj kvs) = None"

text \<open>\<open>ToNumber\<close> is applied to primitives only: see \<open>ToNumeric\<close>.\<close>

definition ToNumeric :: "runtime \<Rightarrow> jsval \<Rightarrow> js_error + int option" where
  "ToNumeric rt v = sbind (ToPrimitive v) (\<lambda>p. Inr (ToNumber rt p))"

fun is_string :: "jsval \<Rightarrow> bool" where
  "is_string (JStr _) = True"
| "is_string _ = False"

definition prim_string :: "jsval \<Rightarrow> string" where
  "prim_string p = (case ToString p of Inr s \<Rightarrow> s | Inl _ \<Rightarrow> [])"

text \<open>
  \<^verbatim>\<open>a + b\<close>: concatenation as soon as one side is a string after ToPrimitive, the sum of
  the two numbers otherwise. \<open>prim_string\<close> is ToString on a primitive, where it cannot
  fail.
\<close>

definition js_add :: "runtime \<Rightarrow> jsval \<Rightarrow> jsval \<Rightarrow> js_error + jsval" where
  "js_add rt a b =
     sbind (ToPrimitive a) (\<lambda>pa.
     sbind (ToPrimitive b) (\<lambda>pb.
       if is_string pa \<or> is_string pb then Inr (JStr (prim_string pa @ prim_string pb))
       else (case (ToNumber rt pa, ToNumber rt pb) of
               (Some x, Some y) \<Rightarrow> Inr (JNum (x + y))
             | _ \<Rightarrow> Inr JNaN)))"

definition js_mul :: "runtime \<Rightarrow> jsval \<Rightarrow> jsval \<Rightarrow> js_error + jsval" where
  "js_mul rt a b =
     sbind (ToNumeric rt a) (\<lambda>x.
     sbind (ToNumeric rt b) (\<lambda>y.
       (case (x, y) of (Some m, Some n) \<Rightarrow> Inr (JNum (m * n)) | _ \<Rightarrow> Inr JNaN)))"

text \<open>\<^verbatim>\<open>a < b\<close>: two strings are compared as strings, anything else as numbers, and a
  comparison with NaN is false.\<close>

definition js_lt :: "runtime \<Rightarrow> jsval \<Rightarrow> jsval \<Rightarrow> js_error + bool" where
  "js_lt rt a b =
     sbind (ToPrimitive a) (\<lambda>pa.
     sbind (ToPrimitive b) (\<lambda>pb.
       if is_string pa \<and> is_string pb then Inr (str_lt (prim_string pa) (prim_string pb))
       else (case (ToNumber rt pa, ToNumber rt pb) of
               (Some x, Some y) \<Rightarrow> Inr (x < y)
             | _ \<Rightarrow> Inr False)))"

text \<open>
  \<^verbatim>\<open>Math.round(a / n)\<close> for a positive integer \<open>n\<close>: the quotient is rounded to the
  nearest integer, a half upwards. The quotient itself, which need not be an integer, is
  never kept by the source.
\<close>

definition round_div :: "runtime \<Rightarrow> jsval \<Rightarrow> int \<Rightarrow> js_error + jsval" where
  "round_div rt a n =
     sbind (ToNumeric rt a) (\<lambda>x.
       (case x of Some m \<Rightarrow> Inr (JNum ((2 * m + n) div (2 * n))) | None \<Rightarrow> Inr JNaN))"

text \<open>\<^verbatim>\<open>a === b\<close>: two primitives of one type with one value; NaN equals nothing, and an
  array or an object is identical to nothing but itself, which no two values met by the
  source are.\<close>

fun strict_eq :: "jsval \<Rightarrow> jsval \<Rightarrow> bool" where
  "strict_eq JUndefined JUndefined = True"
| "strict_eq JNull JNull = True"
| "strict_eq (JBool a) (JBool b) = (a = b)"
| "strict_eq (JNum a) (JNum b) = (a = b)"
| "strict_eq (JStr a) (JStr b) = (a = b)"
| "strict_eq _ _ = False"

text \<open>
  The method call \<^verbatim>\<open>v.toString()\<close>, \<open>what\<close> being the expression for the error message.
\<close>

definition call_toString :: "string \<Rightarrow> jsval \<Rightarrow> js_error + string" where
  "call_toString what v =
     (if nullish v then Inl (cannot_read v ''toString'')
      else (case v of
              JObj kvs \<Rightarrow>
                (if map_of kvs ''toString'' \<noteq> None then Inl (not_a_function (what @ ''.toString''))
                 else Inr ''[object Object]'')
            | _ \<Rightarrow> ToString v))"

section \<open>Effects\<close>

text \<open>
  An asynchronous function of the source either resolves or rejects, and it may have sent
  HTTPS requests on the way: its model returns the requests sent, in order, and the thrown
  error or the value.
\<close>

type_synonym 'a eff = "requestOptions list \<times> (js_error + 'a)"

definition lift :: "js_error + 'a \<Rightarrow> 'a eff" where
  "lift r = ([], r)"

definition ebind :: "'a eff \<Rightarrow> ('a \<Rightarrow> 'b eff) \<Rightarrow> 'b eff" where
  "ebind m f =
     (case m of
        (sent, Inl e) \<Rightarrow> (sent, Inl e)
      | (sent, Inr v) \<Rightarrow> (case f v of (sent', r) \<Rightarrow> (sent @ sent', r)))"

section \<open>The API client (utils/api-client.cjs)\<close>

text \<open>
  \<^verbatim>\<open>request(endpoint, options)\<close>. The endpoint is the path below the base URL and the
  entries of the query string; the options are the method and the body, the only ones a
  caller passes. \<open>build_request\<close> is the source's \<^verbatim>\<open>requestOptions\<close> with the body
  that \<^verbatim>\<open>req.write\<close> sends. One request is sent. A status outside 200..299 rejects with the status
  and the body, a body that does not parse rejects, and so do a network error and the
  timeout. The response headers are not read.
\<close>

type_synonym endpoint = "string \<times> (string \<times> string) list"

record options =
  opt_method :: "string option"
  opt_body :: "string option"

definition no_options :: options where
  "no_options = \<lparr>opt_method = None, opt_body = None\<rparr>"

definition build_request :: "string \<Rightarrow> endpoint \<Rightarrow> options \<Rightarrow> requestOptions" where
  "build_request apiKey endpoint opts =
     \<lparr>hostname = ''api.convolut.app'',
      port = 443,
      pathname = ''/v1'' @ fst endpoint,
      search = snd endpoint,
      http_method = (case opt_method opts of
                       Some m \<Rightarrow> if m \<noteq> [] then m else ''GET''
                     | None \<Rightarrow> ''GET''),
      headers = [(''Content-Type'', ''application/json''),
                 (''api_key'', apiKey),
                 (''User-Agent'', ''convolut-mcp-client/1.0.0'')],
      body = (case opt_body opts of
                Some b \<Rightarrow> if b \<noteq> [] then Some b else None
              | None \<Rightarrow> None)\<rparr>"

definition request :: "runtime \<Rightarrow> string \<Rightarrow> endpoint \<Rightarrow> options \<Rightarrow> jsval eff" where
  "request rt apiKey endpoint opts =
     (let ro = build_request apiKey endpoint opts
      in ([ro],
          (case https_request rt ro of
             Response status hs data \<Rightarrow>
               (if status = 0 \<or> status < 200 \<or> status \<ge> 300
                then Inl (Error (''API Error '' @ string_of_nat status @ '': '' @ data))
                else (case JSON_parse rt data of
                        Some response \<Rightarrow> Inr response
                      | None \<Rightarrow> Inl (Error (''Invalid JSON response: '' @ data))))
           | NetworkError e \<Rightarrow> Inl e
           | Timeout \<Rightarrow> Inl (Error ''Request timeout''))))"

text \<open>
  \<^verbatim>\<open>listContexts(params = {})\<close>: the entries appended to the \<^verbatim>\<open>URLSearchParams\<close>, in
  the order of the source's eight \<^verbatim>\<open>if\<close>s. The first error stops the method before
  anything is sent.
\<close>

definition query_entry :: "bool \<Rightarrow> string \<Rightarrow> js_error + string \<Rightarrow> js_error + (string \<times> string) list" where
  "query_entry present k v =
     (if present then sbind v (\<lambda>s. Inr [(k, s)]) else Inr [])"

definition tags_join :: "jsval \<Rightarrow> js_error + string" where
  "tags_join tags =
     (case tags of
        JArr xs \<Rightarrow> ToString (JArr xs)
      | _ \<Rightarrow> Inl (not_a_function ''params.tags.join''))"

definition queryParams :: "jsval \<Rightarrow> js_error + (string \<times> string) list" where
  "queryParams params =
     (if nullish params then Inl (cannot_read params ''limit'')
      else
        sbind (query_entry (truthy (get params ''limit'')) ''limit''
                 (call_toString ''params.limit'' (get params ''limit''))) (\<lambda>q1.
        sbind (query_entry (truthy (get params ''offset'')) ''offset''
                 (call_toString ''params.offset'' (get params ''offset''))) (\<lambda>q2.
        sbind (query_entry (truthy (get params ''contain'')) ''contain''
                 (ToString (get params ''contain''))) (\<lambda>q3.
        sbind (query_entry (truthy (get params ''category'')) ''category''
                 (ToString (get params ''category''))) (\<lambda>q4.
        sbind (query_entry (truthy (get params ''tags'') \<and> truthy (get (get params ''tags'') ''length''))
                 ''tags'' (tags_join (get params ''tags''))) (\<lambda>q5.
        sbind (query_entry (truthy (get params ''from'')) ''from''
                 (ToString (get params ''from''))) (\<lambda>q6.
        sbind (query_entry (truthy (get params ''to'')) ''to''
                 (ToString (get params ''to''))) (\<lambda>q7.
        sbind (query_entry (get params ''is_favorite'' \<noteq> JUndefined) ''is_favorite''
                 (call_toString ''params.is_favorite'' (get params ''is_favorite''))) (\<lambda>q8.
          Inr (q1 @ q2 @ q3 @ q4 @ q5 @ q6 @ q7 @ q8))))))))))"

definition listContexts :: "runtime \<Rightarrow> string \<Rightarrow> jsval \<Rightarrow> jsval eff" where
  "listContexts rt apiKey params =
     ebind (lift (queryParams (if params = JUndefined then JObj [] else params))) (\<lambda>q.
       request rt apiKey (''/contexts'', q) no_options)"

text \<open>
  \<^verbatim>\<open>getContext(contextId)\<close>: \<^verbatim>\<open>response.items.find(item => item.id === contextId)\<close> on
  the answer to \<^verbatim>\<open>listContexts({ limit: 100 })\<close>.
\<close>

fun find_by_id :: "jsval \<Rightarrow> jsval list \<Rightarrow> js_error + jsval" where
  "find_by_id contextId [] = Inr JUndefined"
| "find_by_id contextId (item # items) =
     (if nullish item then Inl (cannot_read item ''id'')
      else if strict_eq (get item ''id'') contextId then Inr item
      else find_by_id contextId items)"

definition items_find :: "jsval \<Rightarrow> jsval \<Rightarrow> js_error + jsval" where
  "items_find items contextId =
     (if nullish items then Inl (cannot_read items ''find'')
      else (case items of
              JArr xs \<Rightarrow> find_by_id contextId xs
            | _ \<Rightarrow> Inl (not_a_function ''response.items.find'')))"

definition getContext :: "runtime \<Rightarrow> string \<Rightarrow> jsval \<Rightarrow> jsval eff" where
  "getContext rt apiKey contextId =
     ebind (listContexts rt apiKey (JObj [(''limit'', JNum 100)])) (\<lambda>response.
       lift (sbind (read_prop response ''items'') (\<lambda>items.
             sbind (items_find items contextId) (\<lambda>context.
               if \<not> truthy context
               then sbind (ToString contextId) (\<lambda>s.
                      Inl (Error (''Context with ID '' @ s @ '' not found'')))
               else Inr context))))"

text \<open>
  The writing methods: \<^verbatim>\<open>this.request(path, { method, body: JSON.stringify(...) })\<close>.
  \<open>post\<close> is the form five of them share.
\<close>

definition post :: "runtime \<Rightarrow> string \<Rightarrow> string \<Rightarrow> jsval \<Rightarrow> jsval eff" where
  "post rt apiKey p payload =
     request rt apiKey (p, []) \<lparr>opt_method = Some ''POST'', opt_body = Some (JSON_stringify rt payload)\<rparr>"

definition createContext :: "runtime \<Rightarrow> string \<Rightarrow> jsval \<Rightarrow> jsval eff" where
  "createContext rt apiKey contextData = post rt apiKey ''/contexts'' contextData"

definition updateContext :: "runtime \<Rightarrow> string \<Rightarrow> jsval \<Rightarrow> jsval \<Rightarrow> jsval eff" where
  "updateContext rt apiKey contextId updates =
     ebind (lift (ToString contextId)) (\<lambda>s.
       request rt apiKey (''/contexts/'' @ s, [])
         \<lparr>opt_method = Some ''PUT'', opt_body = Some (JSON_stringify rt updates)\<rparr>)"

definition deleteContext :: "runtime \<Rightarrow> string \<Rightarrow> jsval \<Rightarrow> jsval eff" where
  "deleteContext rt apiKey contextId =
     ebind (lift (ToString contextId)) (\<lambda>s.
       request rt apiKey (''/contexts/'' @ s, []) \<lparr>opt_method = Some ''DELETE'', opt_body = None\<rparr>)"

definition consolidateContexts :: "runtime \<Rightarrow> string \<Rightarrow> jsval \<Rightarrow> jsval eff" where
  "consolidateContexts rt apiKey req = post rt apiKey ''/contexts/consolidate'' req"

definition planFromContexts :: "runtime \<Rightarrow> string \<Rightarrow> jsval \<Rightarrow> jsval eff" where
  "planFromContexts rt apiKey req = post rt apiKey ''/contexts/plan'' req"

definition exportContexts :: "runtime \<Rightarrow> string \<Rightarrow> jsval \<Rightarrow> jsval eff" where
  "exportContexts rt apiKey req = post rt apiKey ''/contexts/export'' req"

definition generateRawUrl :: "runtime \<Rightarrow> string \<Rightarrow> jsval \<Rightarrow> jsval eff" where
  "generateRawUrl rt apiKey req = post rt apiKey ''/contexts/raw-url'' req"

text \<open>
  The object a handler receives as \<^verbatim>\<open>apiClient\<close>: the nine methods the handlers call.
  A rejection of a method is an error object, as every rejection of the class above is.
\<close>

record apiClient =
  api_listContexts :: "jsval \<Rightarrow> jsval eff"
  api_getContext :: "jsval \<Rightarrow> jsval eff"
  api_createContext :: "jsval \<Rightarrow> jsval eff"
  api_updateContext :: "jsval \<Rightarrow> jsval \<Rightarrow> jsval eff"
  api_deleteContext :: "jsval \<Rightarrow> jsval eff"
  api_consolidateContexts :: "jsval \<Rightarrow> jsval eff"
  api_planFromContexts :: "jsval \<Rightarrow> jsval eff"
  api_exportContexts :: "jsval \<Rightarrow> jsval eff"
  api_generateRawUrl :: "jsval \<Rightarrow> jsval eff"

definition ConvolutAPIClient :: "runtime \<Rightarrow> string \<Rightarrow> apiClient" where
  "ConvolutAPIClient rt apiKey =
     \<lparr>api_listContexts = listContexts rt apiKey,
      api_getContext = getContext rt apiKey,
      api_createContext = createContext rt apiKey,
      api_updateContext = updateContext rt apiKey,
      api_deleteContext = deleteContext rt apiKey,
      api_consolidateContexts = consolidateContexts rt apiKey,
      api_planFromContexts = planFromContexts rt apiKey,
      api_exportContexts = exportContexts rt apiKey,
      api_generateRawUrl = generateRawUrl rt apiKey\<rparr>"

section \<open>Tool results\<close>

text \<open>
  A handler returns \<^verbatim>\<open>{ content: [{ type: 'text', text }] }\<close>, with
  \<^verbatim>\<open>isError: true\<close> added by its \<^verbatim>\<open>catch\<close> block. \<open>stringify_pretty\<close> is
  \<^verbatim>\<open>JSON.stringify(v, null, 2)\<close>, which is a string for every value but \<^verbatim>\<open>undefined\<close>.
\<close>

definition stringify_pretty :: "runtime \<Rightarrow> jsval \<Rightarrow> jsval" where
  "stringify_pretty rt v = (if v = JUndefined then JUndefined else JStr (JSON_stringify_pretty rt v))"

definition text_result :: "jsval \<Rightarrow> jsval" where
  "text_result t = JObj [(''content'', JArr [JObj [(''type'', JStr ''text''), (''text'', t)]])]"

definition error_result :: "string \<Rightarrow> jsval" where
  "error_result t =
     JObj [(''content'', JArr [JObj [(''type'', JStr ''text''), (''text'', JStr t)]]),
           (''isError'', JBool True)]"

text \<open>
  \<^verbatim>\<open>try { ... } catch (error) { return { ..., text: `<label>${error.message}`, isError: true } }\<close>
\<close>

definition catch_error :: "string \<Rightarrow> jsval eff \<Rightarrow> jsval eff" where
  "catch_error label m =
     (case m of
        (sent, Inl e) \<Rightarrow> (sent, Inr (error_result (label @ message e)))
      | (sent, Inr v) \<Rightarrow> (sent, Inr v))"

definition entry :: "bool \<Rightarrow> string \<Rightarrow> jsval \<Rightarrow> (string \<times> jsval) list" where
  "entry present k v = (if present then [(k, v)] else [])"

fun str_of :: "jsval \<Rightarrow> string" where
  "str_of (JStr s) = s"
| "str_of _ = []"

fun lt_int :: "jsval \<Rightarrow> int \<Rightarrow> bool" where
  "lt_int (JNum n) k = (n < k)"
| "lt_int _ k = False"

fun gt_int :: "jsval \<Rightarrow> int \<Rightarrow> bool" where
  "gt_int (JNum n) k = (n > k)"
| "gt_int _ k = False"

definition cannot_destructure :: "jsval \<Rightarrow> string \<Rightarrow> js_error" where
  "cannot_destructure v k =
     TypeError (''Cannot destructure property '' @ [CHR 0x27] @ k @ [CHR 0x27] @ '' of '' @ [CHR 0x27]
                @ ''args'' @ [CHR 0x27] @ '' as it is '' @ nullish_name v @ ''.'')"

section \<open>Context tools (tools/contexts-fixed.cjs and its unnamed sibling)\<close>

text \<open>
  The two files have the same four validators and the same handlers but one:
  \<^verbatim>\<open>handleListContexts\<close>. \<open>lt_int\<close> and \<open>gt_int\<close> are \<^verbatim>\<open><\<close> and \<^verbatim>\<open>>\<close> against a
  literal on a value already known to be a number; \<open>str_of\<close> is a value already known to
  be a string.
\<close>

definition validateContextSearch :: "jsval \<Rightarrow> js_error + jsval" where
  "validateContextSearch args =
     (if nullish args then Inl (cannot_read args ''limit'')
      else if get args ''limit'' \<noteq> JUndefined \<and>
              (typeof (get args ''limit'') \<noteq> ''number'' \<or> lt_int (get args ''limit'') 1
               \<or> gt_int (get args ''limit'') 100)
      then Inl (Error ''limit must be a number between 1 and 100'')
      else if get args ''offset'' \<noteq> JUndefined \<and>
              (typeof (get args ''offset'') \<noteq> ''number'' \<or> lt_int (get args ''offset'') 0)
      then Inl (Error ''offset must be a non-negative number'')
      else Inr (JObj (
        entry (get args ''limit'' \<noteq> JUndefined) ''limit'' (get args ''limit'') @
        entry (get args ''offset'' \<noteq> JUndefined) ''offset'' (get args ''offset'') @
        entry (truthy (get args ''contain'')) ''contain'' (get args ''contain'') @
        entry (truthy (get args ''category'')) ''category'' (get args ''category'') @
        entry (truthy (get args ''tags'') \<and> isArray (get args ''tags'')) ''tags'' (get args ''tags'') @
        entry (truthy (get args ''from'')) ''from'' (get args ''from'') @
        entry (truthy (get args ''to'')) ''to'' (get args ''to'') @
        entry (get args ''is_favorite'' \<noteq> JUndefined) ''is_favorite'' (get args ''is_favorite''))))"

definition validateContextId :: "jsval \<Rightarrow> js_error + jsval" where
  "validateContextId args =
     (if nullish args then Inl (cannot_read args ''context_id'')
      else if \<not> truthy (get args ''context_id'') \<or> typeof (get args ''context_id'') \<noteq> ''string''
      then Inl (Error ''context_id is required and must be a string'')
      else Inr (JObj [(''context_id'', get args ''context_id'')]))"

definition validateCreateContext :: "jsval \<Rightarrow> js_error + jsval" where
  "validateCreateContext args =
     (if nullish args then Inl (cannot_read args ''title'')
      else if \<not> truthy (get args ''title'') \<or> typeof (get args ''title'') \<noteq> ''string''
              \<or> length (trim (str_of (get args ''title''))) = 0
      then Inl (Error ''title is required and must be a non-empty string'')
      else if \<not> truthy (get args ''content'') \<or> typeof (get args ''content'') \<noteq> ''string''
              \<or> length (trim (str_of (get args ''content''))) = 0
      then Inl (Error ''content is required and must be a non-empty string'')
      else Inr (JObj (
        [(''title'', JStr (trim (str_of (get args ''title'')))),
         (''content'', JStr (trim (str_of (get args ''content'')))),
         (''category'', js_or (get args ''category'') (JStr ''other'')),
         (''is_favorite'', js_or (get args ''is_favorite'') (JBool False))] @
        entry (truthy (get args ''tags'') \<and> isArray (get args ''tags'')) ''tags'' (get args ''tags'') @
        entry (truthy (get args ''files'') \<and> isArray (get args ''files'')) ''files'' (get args ''files''))))"

definition validateUpdateContext :: "jsval \<Rightarrow> js_error + jsval" where
  "validateUpdateContext args =
     (if nullish args then Inl (cannot_read args ''title'')
      else if get args ''title'' \<noteq> JUndefined \<and>
              (typeof (get args ''title'') \<noteq> ''string'' \<or> length (trim (str_of (get args ''title''))) = 0)
      then Inl (Error ''title must be a non-empty string'')
      else if get args ''content'' \<noteq> JUndefined \<and>
              (typeof (get args ''content'') \<noteq> ''string'' \<or> length (trim (str_of (get args ''content''))) = 0)
      then Inl (Error ''content must be a non-empty string'')
      else Inr (JObj (
        entry (get args ''title'' \<noteq> JUndefined) ''title'' (JStr (trim (str_of (get args ''title'')))) @
        entry (get args ''content'' \<noteq> JUndefined) ''content'' (JStr (trim (str_of (get args ''content'')))) @
        entry (get args ''category'' \<noteq> JUndefined) ''category'' (get args ''category'') @
        entry (get args ''is_favorite'' \<noteq> JUndefined) ''is_favorite'' (get args ''is_favorite'') @
        entry (get args ''tags'' \<noteq> JUndefined) ''tags'' (get args ''tags'') @
        entry (get args ''files'' \<noteq> JUndefined) ''files'' (get args ''files''))))"

text \<open>
  \<^verbatim>\<open>handleListContexts\<close> of the unnamed file (the one without the FIXED header): the
  answer of the client is read as an envelope, \<^verbatim>\<open>response.items.length\<close> and all.
\<close>

definition listing :: "runtime \<Rightarrow> jsval \<Rightarrow> js_error + jsval" where
  "listing rt response =
     sbind (read_prop response ''items'') (\<lambda>items.
     sbind (read_prop items ''length'') (\<lambda>len.
     sbind (js_add rt (js_or (get response ''offset'') (JNum 0)) len) (\<lambda>reached.
     sbind (js_lt rt reached (get response ''total_count'')) (\<lambda>hasMore.
       Inr (JObj [(''contexts'', items),
                  (''pagination'', JObj [(''total'', get response ''total_count''),
                                         (''limit'', get response ''limit''),
                                         (''offset'', get response ''offset''),
                                         (''hasMore'', JBool hasMore)])])))))"

definition handleListContexts_body :: "runtime \<Rightarrow> apiClient \<Rightarrow> jsval \<Rightarrow> jsval eff" where
  "handleListContexts_body rt client args =
     ebind (lift (validateContextSearch args)) (\<lambda>params.
     ebind (api_listContexts client params) (\<lambda>response.
       lift (sbind (listing rt response) (\<lambda>out. Inr (text_result (stringify_pretty rt out))))))"

definition handleListContexts :: "runtime \<Rightarrow> apiClient \<Rightarrow> jsval \<Rightarrow> jsval eff" where
  "handleListContexts rt client args =
     catch_error ''Error listing contexts: '' (handleListContexts_body rt client args)"

text \<open>
  \<^verbatim>\<open>handleListContexts\<close> of tools/contexts-fixed.cjs: a bare array or an envelope, the
  limit and the offset taken from the validated arguments.
\<close>

definition listing_fixed :: "runtime \<Rightarrow> jsval \<Rightarrow> jsval \<Rightarrow> js_error + jsval" where
  "listing_fixed rt params response =
     (if nullish response then Inl (cannot_read response ''items'')
      else
        (let contexts = (if isArray response then response else js_or (get response ''items'') (JArr []));
             totalCount = (if isArray response then get response ''length''
                           else js_or (get response ''total_count'') (JNum 0));
             limit = js_or (get params ''limit'') (JNum 20);
             offset = js_or (get params ''offset'') (JNum 0)
         in sbind (js_add rt offset (get contexts ''length'')) (\<lambda>reached.
            sbind (js_lt rt reached totalCount) (\<lambda>hasMore.
              Inr (JObj [(''contexts'', contexts),
                         (''pagination'', JObj [(''total'', totalCount),
                                                (''limit'', limit),
                                                (''offset'', offset),
                                                (''hasMore'', JBool hasMore)])])))))"

definition handleListContexts_fixed_body :: "runtime \<Rightarrow> apiClient \<Rightarrow> jsval \<Rightarrow> jsval eff" where
  "handleListContexts_fixed_body rt client args =
     ebind (lift (validateContextSearch args)) (\<lambda>params.
     ebind (api_listContexts client params) (\<lambda>response.
       lift (sbind (listing_fixed rt params response) (\<lambda>out.
               Inr (text_result (stringify_pretty rt out))))))"

definition handleListContexts_fixed :: "runtime \<Rightarrow> apiClient \<Rightarrow> jsval \<Rightarrow> jsval eff" where
  "handleListContexts_fixed rt client args =
     catch_error ''Error listing contexts: '' (handleListContexts_fixed_body rt client args)"

definition handleGetContext_body :: "runtime \<Rightarrow> apiClient \<Rightarrow> jsval \<Rightarrow> jsval eff" where
  "handleGetContext_body rt client args =
     ebind (lift (validateContextId args)) (\<lambda>valid.
     ebind (api_getContext client (get valid ''context_id'')) (\<lambda>context.
       lift (Inr (text_result (stringify_pretty rt context)))))"

definition handleGetContext :: "runtime \<Rightarrow> apiClient \<Rightarrow> jsval \<Rightarrow> jsval eff" where
  "handleGetContext rt client args =
     catch_error ''Error retrieving context: '' (handleGetContext_body rt client args)"

definition handleCreateContext_body :: "runtime \<Rightarrow> apiClient \<Rightarrow> jsval \<Rightarrow> jsval eff" where
  "handleCreateContext_body rt client args =
     ebind (lift (validateCreateContext args)) (\<lambda>contextData.
     ebind (api_createContext client contextData) (\<lambda>context.
       lift (Inr (text_result (stringify_pretty rt
                    (JObj [(''message'', JStr ''Context created successfully''),
                           (''context'', context)]))))))"

definition handleCreateContext :: "runtime \<Rightarrow> apiClient \<Rightarrow> jsval \<Rightarrow> jsval eff" where
  "handleCreateContext rt client args =
     catch_error ''Error creating context: '' (handleCreateContext_body rt client args)"

text \<open>
  \<^verbatim>\<open>const { context_id, ...updates } = args\<close>: the rest is an object of the other own
  properties; those of an array or a string are its indices.
\<close>

fun indexed :: "nat \<Rightarrow> 'a list \<Rightarrow> (string \<times> 'a) list" where
  "indexed i [] = []"
| "indexed i (x # xs) = (string_of_nat i, x) # indexed (Suc i) xs"

fun rest_updates :: "jsval \<Rightarrow> jsval" where
  "rest_updates (JObj kvs) = JObj (filter (\<lambda>kv. fst kv \<noteq> ''context_id'') kvs)"
| "rest_updates (JArr xs) = JObj (indexed 0 xs)"
| "rest_updates (JStr s) = JObj (indexed 0 (map (\<lambda>c. JStr [c]) s))"
| "rest_updates _ = JObj []"

definition handleUpdateContext_body :: "runtime \<Rightarrow> apiClient \<Rightarrow> jsval \<Rightarrow> jsval eff" where
  "handleUpdateContext_body rt client args =
     (if nullish args then lift (Inl (cannot_destructure args ''context_id''))
      else
        ebind (lift (validateContextId (JObj [(''context_id'', get args ''context_id'')]))) (\<lambda>valid.
        ebind (lift (validateUpdateContext (rest_updates args))) (\<lambda>updateData.
        ebind (api_updateContext client (get args ''context_id'') updateData) (\<lambda>context.
          lift (Inr (text_result (stringify_pretty rt
                       (JObj [(''message'', JStr ''Context updated successfully''),
                              (''context'', context)]))))))))"

definition handleUpdateContext :: "runtime \<Rightarrow> apiClient \<Rightarrow> jsval \<Rightarrow> jsval eff" where
  "handleUpdateContext rt client args =
     catch_error ''Error updating context: '' (handleUpdateContext_body rt client args)"

definition handleDeleteContext_body :: "runtime \<Rightarrow> apiClient \<Rightarrow> jsval \<Rightarrow> jsval eff" where
  "handleDeleteContext_body rt client args =
     ebind (lift (validateContextId args)) (\<lambda>valid.
     ebind (api_deleteContext client (get valid ''context_id'')) (\<lambda>ignored.
       lift (Inr (text_result (stringify_pretty rt
                    (JObj [(''message'', JStr ''Context deleted successfully''),
                           (''context_id'', get valid ''context_id'')]))))))"

definition handleDeleteContext :: "runtime \<Rightarrow> apiClient \<Rightarrow> jsval \<Rightarrow> jsval eff" where
  "handleDeleteContext rt client args =
     catch_error ''Error deleting context: '' (handleDeleteContext_body rt client args)"

section \<open>AI tools (after utils/api-client.cjs, third part)\<close>

text \<open>
  \<^verbatim>\<open>validateConsolidateRequest\<close>, \<^verbatim>\<open>validatePlanRequest\<close> and the three handlers.
  \<open>ids_outside lo hi v\<close> is the test
  \<^verbatim>\<open>!v || !Array.isArray(v) || v.length < lo || v.length > hi\<close>.
\<close>

fun ids_outside :: "nat \<Rightarrow> nat \<Rightarrow> jsval \<Rightarrow> bool" where
  "ids_outside lo hi (JArr xs) = (length xs < lo \<or> length xs > hi)"
| "ids_outside lo hi _ = True"

definition validateConsolidateRequest :: "jsval \<Rightarrow> js_error + jsval" where
  "validateConsolidateRequest args =
     (if nullish args then Inl (cannot_read args ''context_ids'')
      else if ids_outside 2 10 (get args ''context_ids'')
      then Inl (Error ''context_ids must be an array of 2-10 context IDs'')
      else if \<not> truthy (get args ''consolidation_type'')
              \<or> \<not> (strict_eq (JStr ''summarize'') (get args ''consolidation_type'')
                     \<or> strict_eq (JStr ''compose'') (get args ''consolidation_type''))
      then Inl (Error (''consolidation_type must be either '' @ [CHR 0x22] @ ''summarize'' @ [CHR 0x22]
                       @ '' or '' @ [CHR 0x22] @ ''compose'' @ [CHR 0x22]))
      else Inr (JObj (
        [(''context_ids'', get args ''context_ids''),
         (''consolidation_type'', get args ''consolidation_type'')] @
        entry (truthy (get args ''custom_prompt'')) ''custom_prompt'' (get args ''custom_prompt''))))"

definition validatePlanRequest :: "jsval \<Rightarrow> js_error + jsval" where
  "validatePlanRequest args =
     (if nullish args then Inl (cannot_read args ''context_ids'')
      else if ids_outside 1 20 (get args ''context_ids'')
      then Inl (Error ''context_ids must be an array of 1-20 context IDs'')
      else Inr (JObj (
        [(''context_ids'', get args ''context_ids'')] @
        entry (truthy (get args ''planning_prompt'')) ''planning_prompt'' (get args ''planning_prompt''))))"

definition handleConsolidateContexts_body :: "runtime \<Rightarrow> apiClient \<Rightarrow> jsval \<Rightarrow> jsval eff" where
  "handleConsolidateContexts_body rt client args =
     ebind (lift (validateConsolidateRequest args)) (\<lambda>req.
     ebind (api_consolidateContexts client req) (\<lambda>result.
       lift (Inr (text_result (stringify_pretty rt
                    (JObj [(''message'', JStr ''Contexts consolidated successfully''),
                           (''consolidation_type'', get req ''consolidation_type''),
                           (''input_contexts'', get (get req ''context_ids'') ''length''),
                           (''result'', result)]))))))"

definition handleConsolidateContexts :: "runtime \<Rightarrow> apiClient \<Rightarrow> jsval \<Rightarrow> jsval eff" where
  "handleConsolidateContexts rt client args =
     catch_error ''Error consolidating contexts: '' (handleConsolidateContexts_body rt client args)"

definition handlePlanFromContexts_body :: "runtime \<Rightarrow> apiClient \<Rightarrow> jsval \<Rightarrow> jsval eff" where
  "handlePlanFromContexts_body rt client args =
     ebind (lift (validatePlanRequest args)) (\<lambda>req.
     ebind (api_planFromContexts client req) (\<lambda>result.
       lift (Inr (text_result (stringify_pretty rt
                    (JObj [(''message'', JStr ''Plan generated successfully from contexts''),
                           (''analyzed_contexts'', get (get req ''context_ids'') ''length''),
                           (''result'', result)]))))))"

definition handlePlanFromContexts :: "runtime \<Rightarrow> apiClient \<Rightarrow> jsval \<Rightarrow> jsval eff" where
  "handlePlanFromContexts rt client args =
     catch_error ''Error generating plan: '' (handlePlanFromContexts_body rt client args)"

text \<open>
  \<^verbatim>\<open>handleSearchContexts\<close>: the query goes into the property \<^verbatim>\<open>search\<close> of the
  parameters handed to \<^verbatim>\<open>listContexts\<close>.
\<close>

definition searchParams :: "jsval \<Rightarrow> js_error + jsval" where
  "searchParams args =
     (if nullish args then Inl (cannot_read args ''query'')
      else if \<not> truthy (get args ''query'') \<or> typeof (get args ''query'') \<noteq> ''string''
              \<or> length (trim (str_of (get args ''query''))) = 0
      then Inl (Error ''query is required and must be a non-empty string'')
      else Inr (JObj (
        [(''search'', get args ''query''),
         (''limit'', js_or (get args ''limit'') (JNum 10))] @
        entry (truthy (get args ''category'')) ''category'' (get args ''category'') @
        entry (truthy (get args ''tags'') \<and> isArray (get args ''tags'')) ''tags'' (get args ''tags''))))"

definition search_results :: "jsval \<Rightarrow> js_error + jsval" where
  "search_results response =
     (if nullish response then Inl (cannot_read response ''items'')
      else Inr (if isArray response then response else js_or (get response ''items'') (JArr [])))"

definition handleSearchContexts_body :: "runtime \<Rightarrow> apiClient \<Rightarrow> jsval \<Rightarrow> jsval eff" where
  "handleSearchContexts_body rt client args =
     ebind (lift (searchParams args)) (\<lambda>params.
     ebind (api_listContexts client params) (\<lambda>response.
       lift (sbind (search_results response) (\<lambda>results.
               Inr (text_result (stringify_pretty rt
                      (JObj [(''message'', JStr ''Context search completed''),
                             (''query'', get args ''query''),
                             (''results'', results),
                             (''total_found'', get results ''length'')])))))))"

definition handleSearchContexts :: "runtime \<Rightarrow> apiClient \<Rightarrow> jsval \<Rightarrow> jsval eff" where
  "handleSearchContexts rt client args =
     catch_error ''Error searching contexts: '' (handleSearchContexts_body rt client args)"

section \<open>Export tools (after utils/api-client.cjs, second part)\<close>

definition validateExportRequest :: "jsval \<Rightarrow> js_error + jsval" where
  "validateExportRequest args =
     (if nullish args then Inl (cannot_read args ''context_ids'')
      else if ids_outside 1 100 (get args ''context_ids'')
      then Inl (Error ''context_ids must be an array of 1-100 context IDs'')
      else if \<not> truthy (get args ''format'')
              \<or> \<not> (strict_eq (JStr ''json'') (get args ''format'')
                     \<or> strict_eq (JStr ''xml'') (get args ''format'')
                     \<or> strict_eq (JStr ''txt'') (get args ''format'')
                     \<or> strict_eq (JStr ''markdown'') (get args ''format''))
      then Inl (Error ''format must be one of: json, xml, txt, markdown'')
      else Inr (JObj
        [(''context_ids'', get args ''context_ids''),
         (''format'', get args ''format''),
         (''include_metadata'',
            if get args ''include_metadata'' \<noteq> JUndefined then get args ''include_metadata''
            else JBool True)]))"

definition validateRawUrlRequest :: "jsval \<Rightarrow> js_error + jsval" where
  "validateRawUrlRequest args =
     (if nullish args then Inl (cannot_read args ''context_id'')
      else if \<not> truthy (get args ''context_id'') \<or> typeof (get args ''context_id'') \<noteq> ''string''
      then Inl (Error ''context_id is required and must be a string'')
      else Inr (JObj [(''context_id'', get args ''context_id'')]))"

definition handleExportContexts_body :: "runtime \<Rightarrow> apiClient \<Rightarrow> jsval \<Rightarrow> jsval eff" where
  "handleExportContexts_body rt client args =
     ebind (lift (validateExportRequest args)) (\<lambda>req.
     ebind (api_exportContexts client req) (\<lambda>result.
       lift (Inr (text_result (stringify_pretty rt
                    (JObj [(''message'', JStr ''Contexts exported successfully''),
                           (''format'', get req ''format''),
                           (''exported_contexts'', get (get req ''context_ids'') ''length''),
                           (''include_metadata'', get req ''include_metadata''),
                           (''result'', result)]))))))"

definition handleExportContexts :: "runtime \<Rightarrow> apiClient \<Rightarrow> jsval \<Rightarrow> jsval eff" where
  "handleExportContexts rt client args =
     catch_error ''Error exporting contexts: '' (handleExportContexts_body rt client args)"

text \<open>
  \<^verbatim>\<open>new Date(t).toISOString()\<close>: a RangeError when the time value is NaN or beyond
  8.64e15 milliseconds from the epoch, the runtime's formatting otherwise.
\<close>

fun date_iso :: "runtime \<Rightarrow> jsval \<Rightarrow> js_error + string" where
  "date_iso rt (JNum t) =
     (if \<bar>t\<bar> \<le> 8640000000000000 then Inr (Date_toISOString rt t)
      else Inl (RangeError ''Invalid time value''))"
| "date_iso rt _ = Inl (RangeError ''Invalid time value'')"

definition raw_url_report :: "runtime \<Rightarrow> jsval \<Rightarrow> jsval \<Rightarrow> js_error + jsval" where
  "raw_url_report rt req result =
     sbind (read_prop result ''raw_url'') (\<lambda>raw_url.
     sbind (js_mul rt (get result ''expires_in_seconds'') (JNum 1000)) (\<lambda>ms.
     sbind (js_add rt (JNum (Date_now rt)) ms) (\<lambda>t.
     sbind (date_iso rt t) (\<lambda>expires_at.
       Inr (JObj [(''message'', JStr ''Raw URL generated successfully''),
                  (''context_id'', get req ''context_id''),
                  (''raw_url'', raw_url),
                  (''expires_in_seconds'', get result ''expires_in_seconds''),
                  (''expires_at'', JStr expires_at)])))))"

definition handleGetRawUrl_body :: "runtime \<Rightarrow> apiClient \<Rightarrow> jsval \<Rightarrow> jsval eff" where
  "handleGetRawUrl_body rt client args =
     ebind (lift (validateRawUrlRequest args)) (\<lambda>req.
     ebind (api_generateRawUrl client req) (\<lambda>result.
       lift (sbind (raw_url_report rt req result) (\<lambda>out.
               Inr (text_result (stringify_pretty rt out))))))"

definition handleGetRawUrl :: "runtime \<Rightarrow> apiClient \<Rightarrow> jsval \<Rightarrow> jsval eff" where
  "handleGetRawUrl rt client args =
     catch_error ''Error generating raw URL: '' (handleGetRawUrl_body rt client args)"

subsection \<open>Statistics\<close>

text \<open>
  An object written as a literal in the source inherits from \<^verbatim>\<open>Object.prototype\<close>, so a
  read \<^verbatim>\<open>o[k]\<close> with a key computed from data finds the prototype's members where the
  object has no property of its own: eleven built-in functions and the accessor
  \<^verbatim>\<open>__proto__\<close>.
\<close>

definition Object_prototype_functions :: "string list" where
  "Object_prototype_functions =
     [''constructor'', ''__defineGetter__'', ''__defineSetter__'', ''hasOwnProperty'',
      ''__lookupGetter__'', ''__lookupSetter__'', ''isPrototypeOf'', ''propertyIsEnumerable'',
      ''toString'', ''valueOf'', ''toLocaleString'']"

text \<open>The string of a built-in function, in V8's wording.\<close>

definition native_source :: "string \<Rightarrow> string" where
  "native_source k =
     ''function '' @ (if k = ''constructor'' then ''Object'' else k) @ ''() { [native code] }''"

text \<open>
  \<^verbatim>\<open>acc[k] = (acc[k] || 0) + 1\<close> on a counter object that started as \<^verbatim>\<open>{}\<close>. An inherited
  function is truthy and concatenates with \<open>1\<close>; the prototype read through
  \<^verbatim>\<open>__proto__\<close> does too, but the assignment of that string goes to the accessor, which
  ignores it. Properties are kept in insertion order (the engine lists integer-like keys
  first).
\<close>

definition bump :: "runtime \<Rightarrow> (string \<times> jsval) list \<Rightarrow> string \<Rightarrow> js_error + (string \<times> jsval) list" where
  "bump rt acc k =
     (case map_of acc k of
        Some v \<Rightarrow> sbind (js_add rt (js_or v (JNum 0)) (JNum 1)) (\<lambda>n. Inr (obj_set acc k n))
      | None \<Rightarrow>
          (if k = ''__proto__'' then Inr acc
           else if k \<in> set Object_prototype_functions
           then Inr (obj_set acc k (JStr (native_source k @ ''1'')))
           else Inr (obj_set acc k (JNum 1))))"

text \<open>
  \<^verbatim>\<open>allContexts.items\<close> as the receiver of an array method: a TypeError unless it is an
  array.
\<close>

definition items_array :: "jsval \<Rightarrow> string \<Rightarrow> js_error + jsval list" where
  "items_array allContexts m =
     sbind (read_prop allContexts ''items'') (\<lambda>items.
       if nullish items then Inl (cannot_read items m)
       else (case items of
               JArr xs \<Rightarrow> Inr xs
             | _ \<Rightarrow> Inl (not_a_function (''allContexts.items.'' @ m))))"

fun count_categories :: "runtime \<Rightarrow> (string \<times> jsval) list \<Rightarrow> jsval list \<Rightarrow> js_error + (string \<times> jsval) list" where
  "count_categories rt acc [] = Inr acc"
| "count_categories rt acc (context # cs) =
     (if nullish context then Inl (cannot_read context ''category'')
      else sbind (ToString (get context ''category'')) (\<lambda>k.
           sbind (bump rt acc k) (\<lambda>acc'. count_categories rt acc' cs)))"

fun count_each :: "runtime \<Rightarrow> (string \<times> jsval) list \<Rightarrow> jsval list \<Rightarrow> js_error + (string \<times> jsval) list" where
  "count_each rt acc [] = Inr acc"
| "count_each rt acc (tag # ts) =
     sbind (ToString tag) (\<lambda>k.
     sbind (bump rt acc k) (\<lambda>acc'. count_each rt acc' ts))"

fun count_tags :: "runtime \<Rightarrow> (string \<times> jsval) list \<Rightarrow> jsval list \<Rightarrow> js_error + (string \<times> jsval) list" where
  "count_tags rt acc [] = Inr acc"
| "count_tags rt acc (context # cs) =
     (if nullish context then Inl (cannot_read context ''tags'')
      else if nullish (get context ''tags'') then Inl (cannot_read (get context ''tags'') ''forEach'')
      else (case get context ''tags'' of
              JArr ts \<Rightarrow> sbind (count_each rt acc ts) (\<lambda>acc'. count_tags rt acc' cs)
            | _ \<Rightarrow> Inl (not_a_function ''context.tags.forEach'')))"

text \<open>\<^verbatim>\<open>items.filter(c => c.is_favorite)\<close>, as the list it returns.\<close>

fun filter_favorite :: "jsval list \<Rightarrow> js_error + jsval list" where
  "filter_favorite [] = Inr []"
| "filter_favorite (c # cs) =
     (if nullish c then Inl (cannot_read c ''is_favorite'')
      else sbind (filter_favorite cs) (\<lambda>fs.
             Inr (if truthy (get c ''is_favorite'') then c # fs else fs)))"

definition statistics :: "runtime \<Rightarrow> jsval \<Rightarrow> jsval \<Rightarrow> js_error + jsval" where
  "statistics rt group_by allContexts =
     (if strict_eq group_by (JStr ''category'')
      then sbind (items_array allContexts ''reduce'') (\<lambda>items.
           sbind (count_categories rt [] items) (\<lambda>acc. Inr (JObj acc)))
      else if strict_eq group_by (JStr ''favorite'')
      then sbind (items_array allContexts ''filter'') (\<lambda>items.
           sbind (filter_favorite items) (\<lambda>fs.
             Inr (JObj [(''favorites'', JNum (int (length fs))),
                        (''non_favorites'', JNum (int (length items) - int (length fs)))])))
      else if strict_eq group_by (JStr ''tags'')
      then sbind (items_array allContexts ''forEach'') (\<lambda>items.
           sbind (count_tags rt [] items) (\<lambda>acc. Inr (JObj acc)))
      else Inr (JObj []))"

text \<open>
  \<^verbatim>\<open>items.reduce((sum, ctx) => sum + (ctx.word_count || 0), 0)\<close>
\<close>

fun sum_words :: "runtime \<Rightarrow> jsval \<Rightarrow> jsval list \<Rightarrow> js_error + jsval" where
  "sum_words rt acc [] = Inr acc"
| "sum_words rt acc (ctx # cs) =
     (if nullish ctx then Inl (cannot_read ctx ''word_count'')
      else sbind (js_add rt acc (js_or (get ctx ''word_count'') (JNum 0))) (\<lambda>acc'.
             sum_words rt acc' cs))"

definition stats_report :: "runtime \<Rightarrow> jsval \<Rightarrow> jsval \<Rightarrow> jsval \<Rightarrow> js_error + jsval" where
  "stats_report rt date_range group_by allContexts =
     sbind (statistics rt group_by allContexts) (\<lambda>stats.
     sbind (read_prop allContexts ''total_count'') (\<lambda>total_count.
     sbind (items_array allContexts ''reduce'') (\<lambda>items.
     sbind (sum_words rt (JNum 0) items) (\<lambda>total_words.
     sbind (if length items > 0 then round_div rt total_words (int (length items))
            else Inr (JNum 0)) (\<lambda>avg.
       Inr (JObj [(''total_contexts'', total_count),
                  (''date_range'', date_range),
                  (''group_by'', group_by),
                  (''statistics'', stats),
                  (''total_words'', total_words),
                  (''avg_words_per_context'', avg)]))))))"

text \<open>
  \<^verbatim>\<open>const { date_range = '30d', group_by = 'category' } = args\<close>: a default replaces
  \<^verbatim>\<open>undefined\<close> only.
\<close>

definition defaulted :: "jsval \<Rightarrow> jsval \<Rightarrow> jsval" where
  "defaulted v d = (if v = JUndefined then d else v)"

definition handleGetContextStats_body :: "runtime \<Rightarrow> apiClient \<Rightarrow> jsval \<Rightarrow> jsval eff" where
  "handleGetContextStats_body rt client args =
     (if nullish args then lift (Inl (cannot_destructure args ''date_range''))
      else
        ebind (api_listContexts client (JObj [(''limit'', JNum 100)])) (\<lambda>allContexts.
          lift (sbind (stats_report rt (defaulted (get args ''date_range'') (JStr ''30d''))
                         (defaulted (get args ''group_by'') (JStr ''category'')) allContexts) (\<lambda>out.
                  Inr (text_result (stringify_pretty rt out))))))"

definition handleGetContextStats :: "runtime \<Rightarrow> apiClient \<Rightarrow> jsval \<Rightarrow> jsval eff" where
  "handleGetContextStats rt client args =
     catch_error ''Error generating statistics: '' (handleGetContextStats_body rt client args)"

section \<open>The dispatcher (stdio-client.cjs)\<close>

type_synonym handler = "runtime \<Rightarrow> apiClient \<Rightarrow> jsval \<Rightarrow> jsval eff"

text \<open>
  \<^verbatim>\<open>TOOL_HANDLERS\<close>, the object literal that maps the eleven tool names to the handlers
  the file imports from \<^verbatim>\<open>./tools/contexts.cjs\<close>, \<^verbatim>\<open>./tools/ai-tools.cjs\<close> and
  \<^verbatim>\<open>./tools/export.cjs\<close>. The context handlers are read from the unnamed file, the one
  that is not tools/contexts-fixed.cjs.
\<close>

definition TOOL_HANDLERS :: "(string \<times> handler) list" where
  "TOOL_HANDLERS =
     [(''list_contexts'', handleListContexts),
      (''get_context'', handleGetContext),
      (''create_context'', handleCreateContext),
      (''update_context'', handleUpdateContext),
      (''delete_context'', handleDeleteContext),
      (''search_contexts'', handleSearchContexts),
      (''consolidate_contexts'', handleConsolidateContexts),
      (''plan_from_contexts'', handlePlanFromContexts),
      (''export_contexts'', handleExportContexts),
      (''get_raw_url'', handleGetRawUrl),
      (''get_context_stats'', handleGetContextStats)]"

definition rpc_error :: "jsval \<Rightarrow> int \<Rightarrow> string \<Rightarrow> jsval" where
  "rpc_error requestId code msg =
     JObj [(''jsonrpc'', JStr ''2.0''), (''id'', requestId),
           (''error'', JObj [(''code'', JNum code), (''message'', JStr msg)])]"

definition rpc_result :: "jsval \<Rightarrow> jsval \<Rightarrow> jsval" where
  "rpc_result requestId result =
     JObj [(''jsonrpc'', JStr ''2.0''), (''id'', requestId), (''result'', result)]"

text \<open>
  \<^verbatim>\<open>TOOL_HANDLERS[toolName]\<close> is a read on an object literal, so a name that is no tool
  but a member of \<^verbatim>\<open>Object.prototype\<close> finds that member, which is truthy, and
  \<^verbatim>\<open>toolHandler(args, apiClient)\<close> then calls it with no receiver: \<^verbatim>\<open>Object\<close> returns
  its argument (a primitive in its wrapper, which serialises as the primitive),
  \<^verbatim>\<open>toString\<close> names the missing receiver, \<^verbatim>\<open>isPrototypeOf\<close> answers false to a
  primitive, the prototype object behind \<^verbatim>\<open>__proto__\<close> is not callable, and the others
  raise a TypeError for the missing receiver (after converting the argument to a key,
  for the two that take a key). The wording of these TypeErrors is approximate.
\<close>

definition no_receiver :: "string \<Rightarrow> js_error" where
  "no_receiver k = TypeError (''Object.prototype.'' @ k @ '' called on null or undefined'')"

definition call_inherited :: "string \<Rightarrow> jsval \<Rightarrow> js_error + jsval" where
  "call_inherited k args =
     (if k = ''constructor'' then Inr args
      else if k = ''toString'' then Inr (JStr ''[object Undefined]'')
      else if k = ''isPrototypeOf''
      then (if isArray args \<or> (case args of JObj _ \<Rightarrow> True | _ \<Rightarrow> False) then Inl (no_receiver k)
            else Inr (JBool False))
      else if k = ''hasOwnProperty'' \<or> k = ''propertyIsEnumerable''
      then sbind (ToString args) (\<lambda>key. Inl (no_receiver k))
      else if k = ''__proto__'' then Inl (not_a_function ''toolHandler'')
      else Inl (no_receiver k))"

text \<open>
  The inner \<^verbatim>\<open>try\<close> of \<^verbatim>\<open>tools/call\<close>: the handler's result, or error -32603 with
  the message of what it threw.
\<close>

definition call_caught :: "jsval \<Rightarrow> jsval eff \<Rightarrow> jsval eff" where
  "call_caught requestId m =
     (case m of
        (sent, Inl e) \<Rightarrow> (sent, Inr (rpc_error requestId (-32603) (message e)))
      | (sent, Inr result) \<Rightarrow> (sent, Inr (rpc_result requestId result)))"

definition tools_call :: "runtime \<Rightarrow> apiClient \<Rightarrow> jsval \<Rightarrow> jsval \<Rightarrow> jsval eff" where
  "tools_call rt client requestId req =
     (let params = get req ''params'';
          toolName = (if nullish params then JUndefined else get params ''name'')
      in if \<not> truthy toolName
         then lift (Inr (rpc_error requestId (-32602) ''Missing tool name''))
         else
           ebind (lift (ToString toolName)) (\<lambda>k.
             (case map_of TOOL_HANDLERS k of
                Some toolHandler \<Rightarrow>
                  call_caught requestId (toolHandler rt client (js_or (get params ''arguments'') (JObj [])))
              | None \<Rightarrow>
                  (if k = ''__proto__'' \<or> k \<in> set Object_prototype_functions
                   then call_caught requestId
                          (lift (call_inherited k (js_or (get params ''arguments'') (JObj []))))
                   else lift (Inr (rpc_error requestId (-32601) (''Tool not found: '' @ k)))))))"

text \<open>\<^verbatim>\<open>'id' in request\<close>, on a value whose typeof is object and which is not null.\<close>

fun has_id :: "jsval \<Rightarrow> bool" where
  "has_id (JObj kvs) = (map_of kvs ''id'' \<noteq> None)"
| "has_id _ = False"

definition initialize_result :: jsval where
  "initialize_result =
     JObj [(''protocolVersion'', JStr ''2024-11-05''),
           (''capabilities'', JObj [(''tools'', JObj [(''listChanged'', JBool False)]),
                                    (''logging'', JObj []),
                                    (''experimental'', JObj [])]),
           (''serverInfo'', JObj [(''name'', JStr ''convolut-mcp-server''),
                                  (''version'', JStr ''1.0.0'')])]"

text \<open>
  \<^verbatim>\<open>handleMCPRequest(request)\<close>. The module's \<^verbatim>\<open>apiClient\<close> and its static catalogue
  \<^verbatim>\<open>TOOLS\<close>, which no branch inspects, are arguments here. The answer \<^verbatim>\<open>null\<close> of a
  notification is \<open>JNull\<close>.
\<close>

definition route :: "runtime \<Rightarrow> apiClient \<Rightarrow> jsval \<Rightarrow> jsval \<Rightarrow> jsval \<Rightarrow> jsval eff" where
  "route rt client TOOLS requestId req =
     (let m = get req ''method'' in
      if strict_eq m (JStr ''initialize'') then lift (Inr (rpc_result requestId initialize_result))
      else if strict_eq m (JStr ''notifications/initialized'') then lift (Inr JNull)
      else if strict_eq m (JStr ''tools/list'')
      then lift (Inr (rpc_result requestId (JObj [(''tools'', TOOLS)])))
      else if strict_eq m (JStr ''resources/list'')
      then lift (Inr (rpc_result requestId (JObj [(''resources'', JArr [])])))
      else if strict_eq m (JStr ''tools/call'') then tools_call rt client requestId req
      else if strict_eq m (JStr ''ping'')
      then lift (Inr (rpc_result requestId (JObj [(''status'', JStr ''ok'')])))
      else lift (sbind (ToString m) (\<lambda>s.
                   Inr (rpc_error requestId (-32601) (''Method not found: '' @ s)))))"

definition handleMCPRequest :: "runtime \<Rightarrow> apiClient \<Rightarrow> jsval \<Rightarrow> jsval \<Rightarrow> jsval eff" where
  "handleMCPRequest rt client TOOLS req =
     (if \<not> truthy req \<or> typeof req \<noteq> ''object''
      then lift (Inr (rpc_error JNull (-32700) ''Invalid request object''))
      else
        (let requestId = (if has_id req then get req ''id'' else JNull)
         in (case route rt client TOOLS requestId req of
               (sent, Inl e) \<Rightarrow>
                 (sent, Inr (rpc_error requestId (-32603) (''Internal error: '' @ message e)))
             | (sent, Inr response) \<Rightarrow> (sent, Inr response))))"

section \<open>Example runtimes\<close>

text \<open>
  A compact JSON printer (no escapes, properties whose value is \<^verbatim>\<open>undefined\<close> left
  out), and a runtime in which the remote API answers every request alike. They are the
  concrete inputs of the examples below; no general theorem depends on them.
\<close>

fun json_text :: "jsval \<Rightarrow> string" where
  "json_text JUndefined = ''null''"
| "json_text JNull = ''null''"
| "json_text (JBool b) = (if b then ''true'' else ''false'')"
| "json_text (JNum n) = string_of_int n"
| "json_text JNaN = ''null''"
| "json_text (JStr s) = [CHR 0x22] @ s @ [CHR 0x22]"
| "json_text (JArr xs) = ''['' @ join '','' (map json_text xs) @ '']''"
| "json_text (JObj kvs) =
     ''{'' @ join '','' (map (\<lambda>kv. [CHR 0x22] @ fst kv @ [CHR 0x22] @ '':'' @ json_text (snd kv))
                          (filter (\<lambda>kv. snd kv \<noteq> JUndefined) kvs)) @ ''}''"

definition answering :: "nat \<Rightarrow> (string \<times> string) list \<Rightarrow> string \<Rightarrow> jsval option \<Rightarrow> runtime" where
  "answering status hs data parsed =
     \<lparr>https_request = (\<lambda>ro. Response status hs data),
      JSON_parse = (\<lambda>s. if s = data then parsed else None),
      JSON_stringify = json_text,
      JSON_stringify_pretty = json_text,
      StringToNumber = (\<lambda>s. None),
      Date_now = 0,
      Date_toISOString = string_of_int\<rparr>"

text \<open>Two contexts, as a bare array and inside an envelope that counts five in all.\<close>

definition two_contexts :: "jsval list" where
  "two_contexts =
     [JObj [(''id'', JStr ''a''), (''title'', JStr ''first''), (''category'', JStr ''work''),
            (''tags'', JArr [JStr ''x'']), (''is_favorite'', JBool True), (''word_count'', JNum 3)],
      JObj [(''id'', JStr ''b''), (''title'', JStr ''second''), (''category'', JStr ''other''),
            (''tags'', JArr []), (''is_favorite'', JBool False), (''word_count'', JNum 4)]]"

definition bare_array :: runtime where
  "bare_array = answering 200 [] ''[c1,c2]'' (Some (JArr two_contexts))"

definition envelope :: runtime where
  "envelope = answering 200 [] ''{items,total_count}''
     (Some (JObj [(''items'', JArr two_contexts), (''total_count'', JNum 5), (''limit'', JNum 20),
                  (''offset'', JNum 0)]))"

definition redirecting :: runtime where
  "redirecting = answering 307 [(''location'', ''/contexts?x=1'')] [] None"

section \<open>Predicates of the properties\<close>

text \<open>
  A tool result is one of the two envelopes, around the text of its first block;
  \<open>flagged\<close> is \<^verbatim>\<open>isError: true\<close>. \<open>failed\<close> says that a computation threw and
  \<open>returns m P\<close> that it returned a value with property \<open>P\<close>. \<open>tool_outcome h b\<close> is
  what is expected of a handler \<open>h\<close> whose \<^verbatim>\<open>try\<close> block is \<open>b\<close>: it returns, a tool
  result, flagged exactly when the block threw.
\<close>

definition first_text :: "jsval \<Rightarrow> string" where
  "first_text r = (case get r ''content'' of JArr (b # bs) \<Rightarrow> str_of (get b ''text'') | _ \<Rightarrow> [])"

definition is_text :: "jsval \<Rightarrow> bool" where
  "is_text v = (v = text_result (JStr (first_text v)))"


definition flagged :: "jsval \<Rightarrow> bool" where
  "flagged r = (get r ''isError'' = JBool True)"




text \<open>
  The object \<^verbatim>\<open>validateUpdateContext\<close> returns on the rest of an argument object, read
  off the arguments themselves.
\<close>

definition update_data :: "jsval \<Rightarrow> jsval" where
  "update_data args = JObj (
        entry (get args ''title'' \<noteq> JUndefined) ''title'' (JStr (trim (str_of (get args ''title'')))) @
        entry (get args ''content'' \<noteq> JUndefined) ''content'' (JStr (trim (str_of (get args ''content'')))) @
        entry (get args ''category'' \<noteq> JUndefined) ''category'' (get args ''category'') @
        entry (get args ''is_favorite'' \<noteq> JUndefined) ''is_favorite'' (get args ''is_favorite'') @
        entry (get args ''tags'' \<noteq> JUndefined) ''tags'' (get args ''tags'') @
        entry (get args ''files'' \<noteq> JUndefined) ''files'' (get args ''files''))"


text \<open>A value that is neither an array nor an object.\<close>

fun primitive :: "jsval \<Rightarrow> bool" where
  "primitive (JArr xs) = False"
| "primitive (JObj kvs) = False"
| "primitive v = True"

section \<open>Properties\<close>

subsection \<open>Laws of the combinators\<close>

lemma sbind_Inr: "sbind m f = Inr r \<Longrightarrow> (\<And>v. m = Inr v \<Longrightarrow> f v = Inr r \<Longrightarrow> P) \<Longrightarrow> P"
  by (cases m) (auto simp: sbind_def)

lemma snd_lift [simp]: "snd (lift r) = r"
  by (simp add: lift_def)

lemma fst_lift [simp]: "fst (lift r) = []"
  by (simp add: lift_def)

lemma fst_ebind:
  "fst (ebind m f) = (case snd m of Inl e \<Rightarrow> fst m | Inr v \<Rightarrow> fst m @ fst (f v))"
  by (cases m; cases "snd m") (auto simp: ebind_def split: prod.splits)

lemma snd_ebind:
  "snd (ebind m f) = (case snd m of Inl e \<Rightarrow> Inl e | Inr v \<Rightarrow> snd (f v))"
  by (cases m; cases "snd m") (auto simp: ebind_def split: prod.splits)


lemma fst_catch_error [simp]: "fst (catch_error l m) = fst m"
  by (cases m; cases "snd m") (auto simp: catch_error_def)

lemma snd_catch_error:
  "snd (catch_error l m) = Inr (case snd m of Inl e \<Rightarrow> error_result (l @ message e) | Inr v \<Rightarrow> v)"
  by (cases m; cases "snd m") (auto simp: catch_error_def)

lemma map_of_entry [simp]:
  "map_of (entry c k v @ rest) k' = (if c \<and> k = k' then Some v else map_of rest k')"
  by (simp add: entry_def)

lemma map_of_entry_last [simp]:
  "map_of (entry c k v) k' = (if c \<and> k = k' then Some v else None)"
  by (simp add: entry_def)

lemma trim_Nil [simp]: "trim [] = []"
  by (simp add: trim_def)

lemma js_add_numbers [simp]: "js_add rt (JNum a) (JNum b) = Inr (JNum (a + b))"
  by (simp add: js_add_def ToPrimitive_def sbind_def)

lemma js_lt_numbers [simp]: "js_lt rt (JNum a) (JNum b) = Inr (a < b)"
  by (simp add: js_lt_def ToPrimitive_def sbind_def)

subsection \<open>Transport: redirects\<close>

text \<open>
  C1. The claim: a response with status 301, 302 or 307 makes the transport issue the
  request again, same method and body, to the URL of the Location header, up to five
  hops. \<^verbatim>\<open>request\<close> of utils/api-client.cjs does not: whatever the headers, it has
  sent the one request and rejects with the API error of any status outside 200..299.
\<close>

theorem request_rejects_redirect:
  assumes "https_request rt (build_request apiKey endpoint opts) = Response status hs data"
    and "status = 301 \<or> status = 302 \<or> status = 307"
  shows "request rt apiKey endpoint opts
         = ([build_request apiKey endpoint opts],
            Inl (Error (''API Error '' @ string_of_nat status @ '': '' @ data)))"
  using assms unfolding request_def Let_def by auto

text \<open>
  A POST answered with 307 and \<^verbatim>\<open>Location: /contexts?x=1\<close>: one request, and the
  API error.
\<close>

theorem request_rejects_redirect_witness:
  "https_request redirecting
     (build_request ''key'' (''/contexts'', []) \<lparr>opt_method = Some ''POST'', opt_body = Some ''{}''\<rparr>)
   = Response 307 [(''location'', ''/contexts?x=1'')] []
   \<and> request redirecting ''key'' (''/contexts'', [])
         \<lparr>opt_method = Some ''POST'', opt_body = Some ''{}''\<rparr>
     = ([\<lparr>hostname = ''api.convolut.app'', port = 443, pathname = ''/v1/contexts'', search = [],
          http_method = ''POST'',
          headers = [(''Content-Type'', ''application/json''), (''api_key'', ''key''),
                     (''User-Agent'', ''convolut-mcp-client/1.0.0'')],
          body = Some ''{}''\<rparr>],
        Inl (Error ''API Error 307: ''))"
proof -
  let ?opts = "\<lparr>opt_method = Some ''POST'', opt_body = Some ''{}''\<rparr>"
  have a: "https_request redirecting (build_request ''key'' (''/contexts'', []) ?opts)
           = Response 307 [(''location'', ''/contexts?x=1'')] []"
    by (simp add: redirecting_def answering_def)
  have b: "(307::nat) = 301 \<or> (307::nat) = 302 \<or> (307::nat) = 307" by simp
  have "request redirecting ''key'' (''/contexts'', []) ?opts
        = ([build_request ''key'' (''/contexts'', []) ?opts],
           Inl (Error (''API Error '' @ string_of_nat 307 @ '': '' @ [])))"
    by (rule request_rejects_redirect [OF a b])
  also have "\<dots> = ([\<lparr>hostname = ''api.convolut.app'', port = 443, pathname = ''/v1/contexts'',
          search = [], http_method = ''POST'',
          headers = [(''Content-Type'', ''application/json''), (''api_key'', ''key''),
                     (''User-Agent'', ''convolut-mcp-client/1.0.0'')],
          body = Some ''{}''\<rparr>],
        Inl (Error ''API Error 307: ''))"
    by code_simp
  finally show ?thesis using a by simp
qed

subsection \<open>Listing: the two shapes of the answer\<close>

text \<open>
  C2. The claim: a bare array and an envelope are normalised alike by the list handler.
  \<^verbatim>\<open>handleListContexts\<close> of the unnamed file reads \<^verbatim>\<open>response.items.length\<close>
  whatever the shape: when the client resolves to a bare array, the handler returns the
  error result of the TypeError.
\<close>

theorem handleListContexts_rejects_bare_array:
  assumes "validateContextSearch args = Inr params"
    and "snd (api_listContexts client params) = Inr (JArr xs)"
  shows "snd (handleListContexts rt client args)
         = Inr (error_result (''Error listing contexts: '' @ message (cannot_read JUndefined ''length'')))"
  using assms
  by (simp add: handleListContexts_def handleListContexts_body_def snd_catch_error snd_ebind
      listing_def read_prop_def sbind_def)

theorem handleListContexts_rejects_bare_array_witness:
  "validateContextSearch (JObj []) = Inr (JObj [])
   \<and> snd (api_listContexts (ConvolutAPIClient bare_array ''key'') (JObj [])) = Inr (JArr two_contexts)
   \<and> snd (handleListContexts bare_array (ConvolutAPIClient bare_array ''key'') (JObj []))
     = Inr (error_result (''Error listing contexts: '' @ message (cannot_read JUndefined ''length'')))"
proof -
  have a: "validateContextSearch (JObj []) = Inr (JObj [])" by code_simp
  have b: "snd (api_listContexts (ConvolutAPIClient bare_array ''key'') (JObj [])) = Inr (JArr two_contexts)"
    by code_simp
  from handleListContexts_rejects_bare_array [OF a b] a b show ?thesis by blast
qed

text \<open>
  The handler of tools/contexts-fixed.cjs does what the claim says. For a bare array the
  total is its length; for an envelope the items default to none and the total to zero;
  in both, \<open>hasMore\<close> compares the offset of the request plus the number of contexts
  returned with the total.
\<close>

lemma listing_fixed_bare_array:
  assumes "js_or (get params ''offset'') (JNum 0) = JNum offset"
  shows "listing_fixed rt params (JArr xs)
         = Inr (JObj [(''contexts'', JArr xs),
                      (''pagination'',
                       JObj [(''total'', JNum (int (length xs))),
                             (''limit'', js_or (get params ''limit'') (JNum 20)),
                             (''offset'', JNum offset),
                             (''hasMore'', JBool (offset + int (length xs) < int (length xs)))])])"
  using assms by (simp add: listing_fixed_def Let_def sbind_def)

lemma listing_fixed_envelope:
  assumes "js_or (get params ''offset'') (JNum 0) = JNum offset"
    and "js_or (get (JObj kvs) ''items'') (JArr []) = JArr xs"
    and "js_or (get (JObj kvs) ''total_count'') (JNum 0) = JNum total_count"
  shows "listing_fixed rt params (JObj kvs)
         = Inr (JObj [(''contexts'', JArr xs),
                      (''pagination'',
                       JObj [(''total'', JNum total_count),
                             (''limit'', js_or (get params ''limit'') (JNum 20)),
                             (''offset'', JNum offset),
                             (''hasMore'', JBool (offset + int (length xs) < total_count))])])"
  using assms by (simp add: listing_fixed_def Let_def sbind_def del: get.simps(1))

lemma handleListContexts_fixed_bare_array:
  "snd (handleListContexts_fixed bare_array (ConvolutAPIClient bare_array ''key'') (JObj []))
   = Inr (text_result (JStr (json_text
       (JObj [(''contexts'', JArr two_contexts),
              (''pagination'', JObj [(''total'', JNum 2), (''limit'', JNum 20), (''offset'', JNum 0),
                                     (''hasMore'', JBool False)])]))))"
  by code_simp

lemma handleListContexts_fixed_envelope:
  "snd (handleListContexts_fixed envelope (ConvolutAPIClient envelope ''key'') (JObj []))
   = Inr (text_result (JStr (json_text
       (JObj [(''contexts'', JArr two_contexts),
              (''pagination'', JObj [(''total'', JNum 5), (''limit'', JNum 20), (''offset'', JNum 0),
                                     (''hasMore'', JBool True)])]))))"
  by code_simp

subsection \<open>Creating a context\<close>

text \<open>
  C3. The claim: a title longer than 200 characters is rejected before any remote call.
  \<^verbatim>\<open>validateCreateContext\<close> has no upper bound: a title and a content that are not
  blank pass whatever their length, trimmed and with the two defaults filled in, and the
  handler goes on to call the client.
\<close>

theorem validateCreateContext_no_upper_bound:
  assumes "trim title \<noteq> []" and "trim content \<noteq> []"
  shows "validateCreateContext (JObj [(''title'', JStr title), (''content'', JStr content)])
         = Inr (JObj [(''title'', JStr (trim title)), (''content'', JStr (trim content)),
                      (''category'', JStr ''other''), (''is_favorite'', JBool False)])
       \<and> fst (handleCreateContext rt client (JObj [(''title'', JStr title), (''content'', JStr content)]))
         = fst (api_createContext client
                  (JObj [(''title'', JStr (trim title)), (''content'', JStr (trim content)),
                         (''category'', JStr ''other''), (''is_favorite'', JBool False)]))"
proof -
  from assms have ne: "title \<noteq> []" "content \<noteq> []" by auto
  have v: "validateCreateContext (JObj [(''title'', JStr title), (''content'', JStr content)])
         = Inr (JObj [(''title'', JStr (trim title)), (''content'', JStr (trim content)),
                      (''category'', JStr ''other''), (''is_favorite'', JBool False)])"
    using assms ne by (simp add: validateCreateContext_def js_or_def entry_def)
  show ?thesis
    by (simp add: v handleCreateContext_def handleCreateContext_body_def fst_ebind split: sum.splits)
qed

text \<open>A title of 201 characters: accepted, and the POST is sent.\<close>

theorem validateCreateContext_no_upper_bound_witness:
  "trim (replicate 201 CHR ''a'') \<noteq> [] \<and> trim ''x'' \<noteq> []
   \<and> length (trim (replicate 201 CHR ''a'')) = 201
   \<and> validateCreateContext (JObj [(''title'', JStr (replicate 201 CHR ''a'')), (''content'', JStr ''x'')])
     = Inr (JObj [(''title'', JStr (trim (replicate 201 CHR ''a''))), (''content'', JStr (trim ''x'')),
                  (''category'', JStr ''other''), (''is_favorite'', JBool False)])
   \<and> map (\<lambda>ro. (http_method ro, pathname ro))
         (fst (handleCreateContext envelope (ConvolutAPIClient envelope ''key'')
                 (JObj [(''title'', JStr (replicate 201 CHR ''a'')), (''content'', JStr ''x'')])))
     = [(''POST'', ''/v1/contexts'')]"
proof -
  have a: "trim (replicate 201 CHR ''a'') \<noteq> []" by code_simp
  have b: "trim ''x'' \<noteq> []" by code_simp
  have c: "length (trim (replicate 201 CHR ''a'')) = 201" by code_simp
  have d: "map (\<lambda>ro. (http_method ro, pathname ro))
         (fst (handleCreateContext envelope (ConvolutAPIClient envelope ''key'')
                 (JObj [(''title'', JStr (replicate 201 CHR ''a'')), (''content'', JStr ''x'')])))
     = [(''POST'', ''/v1/contexts'')]"
    by code_simp
  from validateCreateContext_no_upper_bound [OF a b, of envelope "ConvolutAPIClient envelope ''key''"]
  have "validateCreateContext (JObj [(''title'', JStr (replicate 201 CHR ''a'')), (''content'', JStr ''x'')])
     = Inr (JObj [(''title'', JStr (trim (replicate 201 CHR ''a''))), (''content'', JStr (trim ''x'')),
                  (''category'', JStr ''other''), (''is_favorite'', JBool False)])"
    by (rule conjunct1)
  with a b c d show ?thesis by blast
qed

text \<open>
  The rest of the claim holds: a title or a content that is missing, not a string or
  blank is rejected and nothing is sent, and an omitted category and favourite flag
  default to \<^verbatim>\<open>other\<close> and \<^verbatim>\<open>false\<close>.
\<close>

lemma validateCreateContext_rejects_title:
  assumes "\<not> nullish args"
    and "\<not> truthy (get args ''title'') \<or> typeof (get args ''title'') \<noteq> ''string''
         \<or> trim (str_of (get args ''title'')) = []"
  shows "validateCreateContext args = Inl (Error ''title is required and must be a non-empty string'')"
    and "fst (handleCreateContext rt client args) = []"
  using assms
  by (auto simp: validateCreateContext_def handleCreateContext_def handleCreateContext_body_def fst_ebind)

lemma validateCreateContext_rejects_content:
  assumes "\<not> nullish args"
    and "\<not> truthy (get args ''content'') \<or> typeof (get args ''content'') \<noteq> ''string''
         \<or> trim (str_of (get args ''content'')) = []"
  shows "\<exists>e. validateCreateContext args = Inl e"
    and "fst (handleCreateContext rt client args) = []"
  using assms
  by (auto simp: validateCreateContext_def handleCreateContext_def handleCreateContext_body_def fst_ebind)

lemma validateCreateContext_defaults:
  assumes "validateCreateContext args = Inr data"
  shows "get data ''category'' = js_or (get args ''category'') (JStr ''other'')"
    and "get data ''is_favorite'' = js_or (get args ''is_favorite'') (JBool False)"
  using assms
  by (auto simp: validateCreateContext_def split: if_splits)

subsection \<open>Getting a context by its id\<close>

text \<open>
  C4. The claim: whatever the shape of the list answer, an id that is not listed fails
  with a not-found error and nothing else. \<^verbatim>\<open>getContext\<close> of utils/api-client.cjs
  calls \<^verbatim>\<open>response.items.find\<close>: when the list is a bare array it throws the TypeError
  of reading \<^verbatim>\<open>find\<close> of \<^verbatim>\<open>undefined\<close>, for an id that is listed as for one that is
  not.
\<close>

theorem getContext_rejects_bare_array:
  assumes "snd (listContexts rt apiKey (JObj [(''limit'', JNum 100)])) = Inr (JArr xs)"
  shows "snd (getContext rt apiKey contextId) = Inl (cannot_read JUndefined ''find'')"
  using assms
  by (simp add: getContext_def snd_ebind read_prop_def sbind_def items_find_def)

theorem getContext_rejects_bare_array_witness:
  "snd (listContexts bare_array ''key'' (JObj [(''limit'', JNum 100)])) = Inr (JArr two_contexts)
   \<and> snd (getContext bare_array ''key'' (JStr ''a'')) = Inl (cannot_read JUndefined ''find'')
   \<and> snd (getContext bare_array ''key'' (JStr ''missing'')) = Inl (cannot_read JUndefined ''find'')"
proof -
  have a: "snd (listContexts bare_array ''key'' (JObj [(''limit'', JNum 100)])) = Inr (JArr two_contexts)"
    by code_simp
  from getContext_rejects_bare_array [OF a] a show ?thesis by blast
qed

text \<open>
  With an envelope the method does what the claim says: the entry whose id is the one
  asked for, or the not-found error when \<^verbatim>\<open>find\<close> returns \<^verbatim>\<open>undefined\<close>.
\<close>

lemma getContext_envelope:
  assumes "snd (listContexts rt apiKey (JObj [(''limit'', JNum 100)])) = Inr (JObj kvs)"
    and "get (JObj kvs) ''items'' = JArr xs"
    and "find_by_id (JStr contextId) xs = Inr found"
  shows "snd (getContext rt apiKey (JStr contextId))
         = (if truthy found then Inr found
            else Inl (Error (''Context with ID '' @ contextId @ '' not found'')))"
  using assms
  by (simp add: getContext_def snd_ebind read_prop_def sbind_def items_find_def del: get.simps(1))

lemma getContext_fetches_hundred:
  "map (\<lambda>ro. (http_method ro, pathname ro, search ro)) (fst (getContext rt apiKey contextId))
   = [(''GET'', ''/v1/contexts'', [(''limit'', ''100'')])]"
proof -
  have q: "queryParams (JObj [(''limit'', JNum 100)]) = Inr [(''limit'', ''100'')]"
    by code_simp
  show ?thesis
    by (simp add: getContext_def listContexts_def fst_ebind q request_def build_request_def
        no_options_def Let_def split: sum.splits)
qed

subsection \<open>Every handler returns a tool result\<close>

lemma is_text_text [simp]: "is_text (text_result (JStr t))"
  by (simp add: is_text_def first_text_def text_result_def)


lemma flagged_error_result [simp]: "flagged (error_result t)"
  by (simp add: flagged_def error_result_def)

lemma stringify_pretty_defined [simp]:
  "v \<noteq> JUndefined \<Longrightarrow> stringify_pretty rt v = JStr (JSON_stringify_pretty rt v)"
  by (simp add: stringify_pretty_def)

















subsection \<open>Dispatching tools/call\<close>

text \<open>
  C6. The claim: a name that matches no registered tool is answered with error -32601.
  \<^verbatim>\<open>constructor\<close> is no tool, but \<^verbatim>\<open>TOOL_HANDLERS['constructor']\<close> is the inherited
  \<^verbatim>\<open>Object\<close>, which is called as the handler and returns the arguments: the answer is
  a result, for every request id and argument value, runtime, client and catalogue.
\<close>

theorem tools_call_constructor:
  "handleMCPRequest rt client TOOLS
     (JObj [(''jsonrpc'', JStr ''2.0''), (''id'', requestId), (''method'', JStr ''tools/call''),
            (''params'', JObj [(''name'', JStr ''constructor''), (''arguments'', arguments)])])
   = ([], Inr (rpc_result requestId (js_or arguments (JObj []))))"
  by code_simp

theorem tools_call_constructor_witness:
  "handleMCPRequest (answering 200 [] [] None) (ConvolutAPIClient (answering 200 [] [] None) ''key'') (JArr [])
     (JObj [(''jsonrpc'', JStr ''2.0''), (''id'', JNum 1), (''method'', JStr ''tools/call''),
            (''params'', JObj [(''name'', JStr ''constructor''), (''arguments'', JObj [(''x'', JNum 1)])])])
   = ([], Inr (JObj [(''jsonrpc'', JStr ''2.0''), (''id'', JNum 1), (''result'', JObj [(''x'', JNum 1)])]))"
proof -
  have "js_or (JObj [(''x'', JNum 1)]) (JObj []) = JObj [(''x'', JNum 1)]"
    by (simp add: js_or_def)
  with tools_call_constructor [of "answering 200 [] [] None"
      "ConvolutAPIClient (answering 200 [] [] None) ''key''" "JArr []" "JNum 1" "JObj [(''x'', JNum 1)]"]
  show ?thesis by (simp add: rpc_result_def)
qed

text \<open>
  The rest of the claim holds. Without a name (no \<^verbatim>\<open>params\<close>, or no truthy
  \<^verbatim>\<open>params.name\<close>) the answer is error -32602. A name that is a string, neither a
  registered tool nor a member of \<^verbatim>\<open>Object.prototype\<close>, is answered with error -32601
  and the name in the message. A registered name calls its handler and wraps what it
  returns.
\<close>

lemma tools_call_missing_name:
  assumes "nullish (get req ''params'') \<or> \<not> truthy (get (get req ''params'') ''name'')"
  shows "tools_call rt client requestId req = ([], Inr (rpc_error requestId (-32602) ''Missing tool name''))"
  using assms by (auto simp: tools_call_def Let_def lift_def)

lemma tools_call_unknown_name:
  assumes "get req ''params'' = JObj ps" and "get (JObj ps) ''name'' = JStr name" and "name \<noteq> []"
    and "map_of TOOL_HANDLERS name = None"
    and "name \<noteq> ''__proto__''" and "name \<notin> set Object_prototype_functions"
  shows "tools_call rt client requestId req
         = ([], Inr (rpc_error requestId (-32601) (''Tool not found: '' @ name)))"
  using assms by (simp add: tools_call_def Let_def lift_def ebind_def del: get.simps(1))

lemma tools_call_registered:
  assumes "get req ''params'' = JObj ps" and "get (JObj ps) ''name'' = JStr name" and "name \<noteq> []"
    and "map_of TOOL_HANDLERS name = Some toolHandler"
  shows "tools_call rt client requestId req
         = (fst (toolHandler rt client (js_or (get (JObj ps) ''arguments'') (JObj []))),
            Inr (case snd (toolHandler rt client (js_or (get (JObj ps) ''arguments'') (JObj []))) of
                   Inl e \<Rightarrow> rpc_error requestId (-32603) (message e)
                 | Inr result \<Rightarrow> rpc_result requestId result))"
proof -
  obtain sent r where h: "toolHandler rt client (js_or (get (JObj ps) ''arguments'') (JObj [])) = (sent, r)"
    by (cases "toolHandler rt client (js_or (get (JObj ps) ''arguments'') (JObj []))")
  show ?thesis
    using assms
    by (cases r) (simp_all add: tools_call_def Let_def lift_def ebind_def call_caught_def h del: get.simps(1))
qed

lemma handleMCPRequest_frobnicate:
  "handleMCPRequest rt client TOOLS
     (JObj [(''jsonrpc'', JStr ''2.0''), (''id'', requestId), (''method'', JStr ''tools/call''),
            (''params'', JObj [(''name'', JStr ''frobnicate'')])])
   = ([], Inr (rpc_error requestId (-32601) ''Tool not found: frobnicate''))"
  by code_simp

lemma handleMCPRequest_without_name:
  "handleMCPRequest rt client TOOLS
     (JObj [(''jsonrpc'', JStr ''2.0''), (''id'', requestId), (''method'', JStr ''tools/call'')])
   = ([], Inr (rpc_error requestId (-32602) ''Missing tool name''))"
  by code_simp

subsection \<open>Updating a context\<close>

lemma map_of_filter_other:
  "k \<noteq> c \<Longrightarrow> map_of (filter (\<lambda>kv. fst kv \<noteq> c) kvs) k = map_of kvs k"
  by (induction kvs) auto

lemma get_rest_updates:
  "k \<noteq> ''context_id'' \<Longrightarrow> get (rest_updates (JObj kvs)) k = get (JObj kvs) k"
  by (simp add: map_of_filter_other)

lemma validateUpdateContext_rest:
  "validateUpdateContext (rest_updates (JObj kvs)) =
     (if get (JObj kvs) ''title'' \<noteq> JUndefined \<and>
         (typeof (get (JObj kvs) ''title'') \<noteq> ''string'' \<or> trim (str_of (get (JObj kvs) ''title'')) = [])
      then Inl (Error ''title must be a non-empty string'')
      else if get (JObj kvs) ''content'' \<noteq> JUndefined \<and>
         (typeof (get (JObj kvs) ''content'') \<noteq> ''string'' \<or> trim (str_of (get (JObj kvs) ''content'')) = [])
      then Inl (Error ''content must be a non-empty string'')
      else Inr (update_data (JObj kvs)))"
proof -
  have g: "get (rest_updates (JObj kvs)) ''title'' = get (JObj kvs) ''title''"
    "get (rest_updates (JObj kvs)) ''content'' = get (JObj kvs) ''content''"
    "get (rest_updates (JObj kvs)) ''category'' = get (JObj kvs) ''category''"
    "get (rest_updates (JObj kvs)) ''is_favorite'' = get (JObj kvs) ''is_favorite''"
    "get (rest_updates (JObj kvs)) ''tags'' = get (JObj kvs) ''tags''"
    "get (rest_updates (JObj kvs)) ''files'' = get (JObj kvs) ''files''"
    by (rule get_rest_updates, simp)+
  have n: "\<not> nullish (rest_updates (JObj kvs))" by simp
  show ?thesis
    unfolding validateUpdateContext_def update_data_def g
    using n by (simp del: rest_updates.simps get.simps)
qed

text \<open>
  C7, as the claim states it, fails: the arguments \<^verbatim>\<open>{ context_id: 'abc' }\<close>, with no
  mutable field, pass both validators, and the handler sends the PUT with an empty
  update object.
\<close>

theorem update_context_only_id_counterexample:
  "validateContextId (JObj [(''context_id'', JStr ''abc'')]) = Inr (JObj [(''context_id'', JStr ''abc'')])
   \<and> validateUpdateContext (rest_updates (JObj [(''context_id'', JStr ''abc'')])) = Inr (JObj [])
   \<and> map (\<lambda>ro. (http_method ro, pathname ro, body ro))
         (fst (handleUpdateContext envelope (ConvolutAPIClient envelope ''key'')
                 (JObj [(''context_id'', JStr ''abc'')])))
     = [(''PUT'', ''/v1/contexts/abc'', Some ''{}'')]
   \<and> flagged (case snd (handleUpdateContext envelope (ConvolutAPIClient envelope ''key'')
                           (JObj [(''context_id'', JStr ''abc'')])) of
                Inr r \<Rightarrow> r | Inl e \<Rightarrow> JUndefined) = False"
  by code_simp

text \<open>
  C7, amended. For an argument object, validation requires \<^verbatim>\<open>context_id\<close> to be a
  non-empty string, and a title and a content that are present to be strings that are
  not blank; no mutable field is required. Arguments that pass reach the client's
  \<^verbatim>\<open>updateContext\<close> with the id and the validated fields, and the handler sends what
  that call sends; arguments that fail are answered with an error result and nothing is
  sent.
\<close>

theorem update_context_validation:
  assumes obj: "args = JObj kvs"
  shows "(if truthy (get args ''context_id'') \<and> typeof (get args ''context_id'') = ''string''
             \<and> (get args ''title'' = JUndefined
                 \<or> typeof (get args ''title'') = ''string'' \<and> trim (str_of (get args ''title'')) \<noteq> [])
             \<and> (get args ''content'' = JUndefined
                 \<or> typeof (get args ''content'') = ''string'' \<and> trim (str_of (get args ''content'')) \<noteq> [])
          then validateUpdateContext (rest_updates args) = Inr (update_data args)
             \<and> fst (handleUpdateContext rt client args)
                 = fst (api_updateContext client (get args ''context_id'') (update_data args))
          else fst (handleUpdateContext rt client args) = []
             \<and> (\<exists>e. snd (handleUpdateContext rt client args)
                      = Inr (error_result (''Error updating context: '' @ message e))))"
proof -
  have n: "\<not> nullish args" using obj by simp
  have vid: "validateContextId (JObj [(''context_id'', get args ''context_id'')]) =
      (if \<not> truthy (get args ''context_id'') \<or> typeof (get args ''context_id'') \<noteq> ''string''
       then Inl (Error ''context_id is required and must be a string'')
       else Inr (JObj [(''context_id'', get args ''context_id'')]))"
    by (simp add: validateContextId_def)
  have vup: "validateUpdateContext (rest_updates args) =
     (if get args ''title'' \<noteq> JUndefined \<and>
         (typeof (get args ''title'') \<noteq> ''string'' \<or> trim (str_of (get args ''title'')) = [])
      then Inl (Error ''title must be a non-empty string'')
      else if get args ''content'' \<noteq> JUndefined \<and>
         (typeof (get args ''content'') \<noteq> ''string'' \<or> trim (str_of (get args ''content'')) = [])
      then Inl (Error ''content must be a non-empty string'')
      else Inr (update_data args))"
    unfolding obj by (rule validateUpdateContext_rest)
  let ?ok = "truthy (get args ''context_id'') \<and> typeof (get args ''context_id'') = ''string''
             \<and> (get args ''title'' = JUndefined
                 \<or> typeof (get args ''title'') = ''string'' \<and> trim (str_of (get args ''title'')) \<noteq> [])
             \<and> (get args ''content'' = JUndefined
                 \<or> typeof (get args ''content'') = ''string'' \<and> trim (str_of (get args ''content'')) \<noteq> [])"
  show ?thesis
  proof (cases ?ok)
    case True
    then have a: "validateContextId (JObj [(''context_id'', get args ''context_id'')])
                  = Inr (JObj [(''context_id'', get args ''context_id'')])"
      unfolding vid by simp
    from True have b: "validateUpdateContext (rest_updates args) = Inr (update_data args)"
      unfolding vup by auto
    have "fst (handleUpdateContext rt client args)
          = fst (api_updateContext client (get args ''context_id'') (update_data args))"
      unfolding handleUpdateContext_def handleUpdateContext_body_def
      using n by (simp add: a b fst_ebind split: sum.splits)
    with b have "validateUpdateContext (rest_updates args) = Inr (update_data args)
             \<and> fst (handleUpdateContext rt client args)
                 = fst (api_updateContext client (get args ''context_id'') (update_data args))"
      by (rule conjI)
    then show ?thesis
      unfolding if_P [OF True] .
  next
    case False
    then have "(\<exists>e. validateContextId (JObj [(''context_id'', get args ''context_id'')]) = Inl e)
       \<or> (\<exists>e. validateUpdateContext (rest_updates args) = Inl e)"
      unfolding vid vup by auto
    then have "fst (handleUpdateContext rt client args) = []
             \<and> (\<exists>e. snd (handleUpdateContext rt client args)
                      = Inr (error_result (''Error updating context: '' @ message e)))"
      unfolding handleUpdateContext_def handleUpdateContext_body_def
      using n by (auto simp: fst_ebind snd_ebind snd_catch_error split: sum.splits)
    then show ?thesis
      unfolding if_not_P [OF False] .
  qed
qed

text \<open>
  Arguments with a new title: they pass, the title is trimmed, and the PUT carries it.
  Arguments whose title is blank: nothing is sent.
\<close>

theorem update_context_validation_witness:
  "validateUpdateContext (rest_updates (JObj [(''context_id'', JStr ''abc''), (''title'', JStr '' New '')]))
   = Inr (update_data (JObj [(''context_id'', JStr ''abc''), (''title'', JStr '' New '')]))
   \<and> update_data (JObj [(''context_id'', JStr ''abc''), (''title'', JStr '' New '')])
     = JObj [(''title'', JStr ''New'')]
   \<and> fst (handleUpdateContext envelope (ConvolutAPIClient envelope ''key'')
            (JObj [(''context_id'', JStr ''abc''), (''title'', JStr '' New '')]))
     = fst (api_updateContext (ConvolutAPIClient envelope ''key'') (JStr ''abc'')
              (update_data (JObj [(''context_id'', JStr ''abc''), (''title'', JStr '' New '')])))
   \<and> map (\<lambda>ro. (http_method ro, pathname ro, body ro))
         (fst (api_updateContext (ConvolutAPIClient envelope ''key'') (JStr ''abc'')
                 (update_data (JObj [(''context_id'', JStr ''abc''), (''title'', JStr '' New '')]))))
     = [(''PUT'', ''/v1/contexts/abc'', Some (''{'' @ [CHR 0x22] @ ''title'' @ [CHR 0x22] @ '':''
                                              @ [CHR 0x22] @ ''New'' @ [CHR 0x22] @ ''}''))]
   \<and> fst (handleUpdateContext envelope (ConvolutAPIClient envelope ''key'')
            (JObj [(''context_id'', JStr ''abc''), (''title'', JStr ''  '')])) = []"
proof -
  let ?A = "JObj [(''context_id'', JStr ''abc''), (''title'', JStr '' New '')]"
  let ?B = "JObj [(''context_id'', JStr ''abc''), (''title'', JStr ''  '')]"
  let ?C = "ConvolutAPIClient envelope ''key''"
  have okA: "truthy (get ?A ''context_id'') \<and> typeof (get ?A ''context_id'') = ''string''
             \<and> (get ?A ''title'' = JUndefined
                 \<or> typeof (get ?A ''title'') = ''string'' \<and> trim (str_of (get ?A ''title'')) \<noteq> [])
             \<and> (get ?A ''content'' = JUndefined
                 \<or> typeof (get ?A ''content'') = ''string'' \<and> trim (str_of (get ?A ''content'')) \<noteq> [])"
    by code_simp
  have koB: "\<not> (truthy (get ?B ''context_id'') \<and> typeof (get ?B ''context_id'') = ''string''
             \<and> (get ?B ''title'' = JUndefined
                 \<or> typeof (get ?B ''title'') = ''string'' \<and> trim (str_of (get ?B ''title'')) \<noteq> [])
             \<and> (get ?B ''content'' = JUndefined
                 \<or> typeof (get ?B ''content'') = ''string'' \<and> trim (str_of (get ?B ''content'')) \<noteq> []))"
    by code_simp
  have a: "validateUpdateContext (rest_updates ?A) = Inr (update_data ?A)
           \<and> fst (handleUpdateContext envelope ?C ?A)
             = fst (api_updateContext ?C (get ?A ''context_id'') (update_data ?A))"
    using update_context_validation [OF refl, of "[(''context_id'', JStr ''abc''), (''title'', JStr '' New '')]"
        envelope ?C]
    unfolding if_P [OF okA] .
  have b: "fst (handleUpdateContext envelope ?C ?B) = []
           \<and> (\<exists>e. snd (handleUpdateContext envelope ?C ?B)
                    = Inr (error_result (''Error updating context: '' @ message e)))"
    using update_context_validation [OF refl, of "[(''context_id'', JStr ''abc''), (''title'', JStr ''  '')]"
        envelope ?C]
    unfolding if_not_P [OF koB] .
  have g: "get ?A ''context_id'' = JStr ''abc''" by simp
  have d: "update_data ?A = JObj [(''title'', JStr ''New'')]" by code_simp
  have p: "map (\<lambda>ro. (http_method ro, pathname ro, body ro))
         (fst (api_updateContext ?C (JStr ''abc'') (update_data ?A)))
     = [(''PUT'', ''/v1/contexts/abc'', Some (''{'' @ [CHR 0x22] @ ''title'' @ [CHR 0x22] @ '':''
                                              @ [CHR 0x22] @ ''New'' @ [CHR 0x22] @ ''}''))]"
    by code_simp
  from a b d p show ?thesis unfolding g by blast
qed

subsection \<open>The query string of the list endpoint\<close>

text \<open>
  What \<^verbatim>\<open>listContexts\<close> appends: each of the eight entries is there exactly when its
  condition holds, so a key is in the query string exactly when it is one of the eight
  and the condition of that one holds.
\<close>

lemma query_entry_Inr:
  "query_entry c k v = Inr q \<Longrightarrow> (\<not> c \<and> q = []) \<or> (c \<and> (\<exists>s. v = Inr s \<and> q = [(k, s)]))"
  by (auto simp: query_entry_def elim!: sbind_Inr split: if_splits)

lemma query_entry_key:
  "query_entry c k v = Inr q \<Longrightarrow> (k' \<in> fst ` set q) = (c \<and> k' = k)"
  by (auto dest!: query_entry_Inr)

lemma queryParams_Inr:
  assumes "queryParams p = Inr q"
  shows "\<exists>q1 q2 q3 q4 q5 q6 q7 q8. q = q1 @ q2 @ q3 @ q4 @ q5 @ q6 @ q7 @ q8
     \<and> query_entry (truthy (get p ''limit'')) ''limit'' (call_toString ''params.limit'' (get p ''limit'')) = Inr q1
     \<and> query_entry (truthy (get p ''offset'')) ''offset'' (call_toString ''params.offset'' (get p ''offset'')) = Inr q2
     \<and> query_entry (truthy (get p ''contain'')) ''contain'' (ToString (get p ''contain'')) = Inr q3
     \<and> query_entry (truthy (get p ''category'')) ''category'' (ToString (get p ''category'')) = Inr q4
     \<and> query_entry (truthy (get p ''tags'') \<and> truthy (get (get p ''tags'') ''length'')) ''tags'' (tags_join (get p ''tags'')) = Inr q5
     \<and> query_entry (truthy (get p ''from'')) ''from'' (ToString (get p ''from'')) = Inr q6
     \<and> query_entry (truthy (get p ''to'')) ''to'' (ToString (get p ''to'')) = Inr q7
     \<and> query_entry (get p ''is_favorite'' \<noteq> JUndefined) ''is_favorite'' (call_toString ''params.is_favorite'' (get p ''is_favorite'')) = Inr q8"
  using assms unfolding queryParams_def
  by (auto elim!: sbind_Inr split: if_splits)

lemma queryParams_key:
  assumes "queryParams p = Inr q"
  shows "(k \<in> fst ` set q) =
     (truthy (get p ''limit'') \<and> k = ''limit''
      \<or> truthy (get p ''offset'') \<and> k = ''offset''
      \<or> truthy (get p ''contain'') \<and> k = ''contain''
      \<or> truthy (get p ''category'') \<and> k = ''category''
      \<or> (truthy (get p ''tags'') \<and> truthy (get (get p ''tags'') ''length'')) \<and> k = ''tags''
      \<or> truthy (get p ''from'') \<and> k = ''from''
      \<or> truthy (get p ''to'') \<and> k = ''to''
      \<or> get p ''is_favorite'' \<noteq> JUndefined \<and> k = ''is_favorite'')"
proof -
  from queryParams_Inr [OF assms] obtain q1 q2 q3 q4 q5 q6 q7 q8 where
    q: "q = q1 @ q2 @ q3 @ q4 @ q5 @ q6 @ q7 @ q8"
    and e1: "query_entry (truthy (get p ''limit'')) ''limit'' (call_toString ''params.limit'' (get p ''limit'')) = Inr q1"
    and e2: "query_entry (truthy (get p ''offset'')) ''offset'' (call_toString ''params.offset'' (get p ''offset'')) = Inr q2"
    and e3: "query_entry (truthy (get p ''contain'')) ''contain'' (ToString (get p ''contain'')) = Inr q3"
    and e4: "query_entry (truthy (get p ''category'')) ''category'' (ToString (get p ''category'')) = Inr q4"
    and e5: "query_entry (truthy (get p ''tags'') \<and> truthy (get (get p ''tags'') ''length'')) ''tags'' (tags_join (get p ''tags'')) = Inr q5"
    and e6: "query_entry (truthy (get p ''from'')) ''from'' (ToString (get p ''from'')) = Inr q6"
    and e7: "query_entry (truthy (get p ''to'')) ''to'' (ToString (get p ''to'')) = Inr q7"
    and e8: "query_entry (get p ''is_favorite'' \<noteq> JUndefined) ''is_favorite'' (call_toString ''params.is_favorite'' (get p ''is_favorite'')) = Inr q8"
    by blast
  have keys: "(k \<in> fst ` set q) =
      (k \<in> fst ` set q1 \<or> k \<in> fst ` set q2 \<or> k \<in> fst ` set q3 \<or> k \<in> fst ` set q4
       \<or> k \<in> fst ` set q5 \<or> k \<in> fst ` set q6 \<or> k \<in> fst ` set q7 \<or> k \<in> fst ` set q8)"
    unfolding q by (simp add: image_Un)
  show ?thesis
    unfolding keys query_entry_key [OF e1] query_entry_key [OF e2] query_entry_key [OF e3]
      query_entry_key [OF e4] query_entry_key [OF e5] query_entry_key [OF e6]
      query_entry_key [OF e7] query_entry_key [OF e8] ..
qed


lemma search_of_request [simp]: "map search (fst (request rt apiKey endpoint opts)) = [snd endpoint]"
  by (simp add: request_def build_request_def Let_def)

lemma search_of_listContexts:
  "params \<noteq> JUndefined \<Longrightarrow>
   map search (fst (listContexts rt apiKey params))
   = (case queryParams params of Inl e \<Rightarrow> [] | Inr q \<Rightarrow> [q])"
  by (simp add: listContexts_def fst_ebind split: sum.splits)

subsection \<open>Searching\<close>

lemma searchParams_Inr:
  assumes "searchParams args = Inr params"
  shows "params = JObj (
        [(''search'', get args ''query''),
         (''limit'', js_or (get args ''limit'') (JNum 10))] @
        entry (truthy (get args ''category'')) ''category'' (get args ''category'') @
        entry (truthy (get args ''tags'') \<and> isArray (get args ''tags'')) ''tags'' (get args ''tags''))"
  using assms unfolding searchParams_def
  by (simp split: if_split_asm)

text \<open>
  C8. The claim: the query keyword of \<^verbatim>\<open>search_contexts\<close> is serialised into the query
  string of the request. The handler stores it under \<^verbatim>\<open>search\<close>, a property
  \<^verbatim>\<open>listContexts\<close> never reads: whatever the arguments, a request the handler sends has
  no parameter but the limit, the category and the tags.
\<close>

theorem search_query_not_serialised:
  assumes ro: "ro \<in> set (fst (handleSearchContexts rt (ConvolutAPIClient rt apiKey) args))"
  shows "fst ` set (search ro) \<subseteq> {''limit'', ''category'', ''tags''}"
proof -
  from ro have body: "ro \<in> set (fst (handleSearchContexts_body rt (ConvolutAPIClient rt apiKey) args))"
    by (simp add: handleSearchContexts_def)
  then obtain params where p: "searchParams args = Inr params"
    by (cases "searchParams args") (auto simp: handleSearchContexts_body_def fst_ebind)
  have shape: "params = JObj (
        [(''search'', get args ''query''),
         (''limit'', js_or (get args ''limit'') (JNum 10))] @
        entry (truthy (get args ''category'')) ''category'' (get args ''category'') @
        entry (truthy (get args ''tags'') \<and> isArray (get args ''tags'')) ''tags'' (get args ''tags''))"
    by (rule searchParams_Inr [OF p])
  then have d: "params \<noteq> JUndefined" by simp
  from body have "search ro \<in> set (map search (fst (listContexts rt apiKey params)))"
    by (auto simp: handleSearchContexts_body_def fst_ebind p ConvolutAPIClient_def split: sum.splits)
  then have q: "queryParams params = Inr (search ro)"
    unfolding search_of_listContexts [OF d] by (cases "queryParams params") auto
  have g: "get params ''offset'' = JUndefined" "get params ''contain'' = JUndefined"
    "get params ''from'' = JUndefined" "get params ''to'' = JUndefined"
    "get params ''is_favorite'' = JUndefined"
    unfolding shape by (simp_all del: map_of_append)
  show ?thesis
  proof
    fix k assume "k \<in> fst ` set (search ro)"
    then show "k \<in> {''limit'', ''category'', ''tags''}"
      unfolding queryParams_key [OF q] g by auto
  qed
qed

text \<open>The search for \<^verbatim>\<open>foo\<close>: one request, \<^verbatim>\<open>GET /v1/contexts?limit=10\<close>.\<close>

theorem search_query_not_serialised_witness:
  "fst (handleSearchContexts envelope (ConvolutAPIClient envelope ''key'') (JObj [(''query'', JStr ''foo'')]))
   = [build_request ''key'' (''/contexts'', [(''limit'', ''10'')]) no_options]
   \<and> http_method (build_request ''key'' (''/contexts'', [(''limit'', ''10'')]) no_options) = ''GET''
   \<and> fst ` set (search (build_request ''key'' (''/contexts'', [(''limit'', ''10'')]) no_options))
     \<subseteq> {''limit'', ''category'', ''tags''}"
proof -
  have a: "fst (handleSearchContexts envelope (ConvolutAPIClient envelope ''key'') (JObj [(''query'', JStr ''foo'')]))
   = [build_request ''key'' (''/contexts'', [(''limit'', ''10'')]) no_options]"
    by code_simp
  then have b: "build_request ''key'' (''/contexts'', [(''limit'', ''10'')]) no_options
      \<in> set (fst (handleSearchContexts envelope (ConvolutAPIClient envelope ''key'') (JObj [(''query'', JStr ''foo'')])))"
    by simp
  have c: "http_method (build_request ''key'' (''/contexts'', [(''limit'', ''10'')]) no_options) = ''GET''"
    by code_simp
  from search_query_not_serialised [OF b] a c show ?thesis by blast
qed

subsection \<open>Listing: what is serialised\<close>

lemma validateContextSearch_Inr:
  assumes "validateContextSearch args = Inr params"
  shows "params = JObj (
        entry (get args ''limit'' \<noteq> JUndefined) ''limit'' (get args ''limit'') @
        entry (get args ''offset'' \<noteq> JUndefined) ''offset'' (get args ''offset'') @
        entry (truthy (get args ''contain'')) ''contain'' (get args ''contain'') @
        entry (truthy (get args ''category'')) ''category'' (get args ''category'') @
        entry (truthy (get args ''tags'') \<and> isArray (get args ''tags'')) ''tags'' (get args ''tags'') @
        entry (truthy (get args ''from'')) ''from'' (get args ''from'') @
        entry (truthy (get args ''to'')) ''to'' (get args ''to'') @
        entry (get args ''is_favorite'' \<noteq> JUndefined) ''is_favorite'' (get args ''is_favorite''))"
proof -
  have a: "\<not> nullish args"
    using assms by (auto simp: validateContextSearch_def)
  show ?thesis
    using assms a unfolding validateContextSearch_def
    by (simp split: if_split_asm)
qed

lemma validated_params:
  assumes "validateContextSearch args = Inr params"
  shows "params \<noteq> JUndefined"
    and "get params ''limit'' = get args ''limit''"
    and "get params ''offset'' = get args ''offset''"
    and "truthy (get params ''contain'') = truthy (get args ''contain'')"
    and "truthy (get params ''category'') = truthy (get args ''category'')"
    and "get params ''is_favorite'' = get args ''is_favorite''"
  unfolding validateContextSearch_Inr [OF assms]
  by (simp_all del: map_of_append)




text \<open>
  When is a request sent at all? Exactly when the serialisation of the parameters throws
  nothing, and then it is the one GET with these parameters. It throws nothing when the
  filters are primitive values, the tags an array of primitive values and the favourite
  flag not \<^verbatim>\<open>null\<close>, which covers every argument object of the tool's schema.
\<close>

lemma list_contexts_one_request:
  assumes v: "validateContextSearch args = Inr params"
  shows "fst (handleListContexts rt (ConvolutAPIClient rt apiKey) args)
         = (case queryParams params of
              Inl e \<Rightarrow> []
            | Inr q \<Rightarrow> [build_request apiKey (''/contexts'', q) no_options])"
proof -
  have p: "params \<noteq> JUndefined" by (rule validated_params(1) [OF v])
  show ?thesis
    using p
    by (simp add: handleListContexts_def handleListContexts_body_def v fst_ebind
        ConvolutAPIClient_def listContexts_def request_def Let_def split: sum.splits)
qed

lemma ToString_primitive: "primitive v \<Longrightarrow> \<exists>s. ToString v = Inr s"
  by (cases v) simp_all

lemma sequence_primitives:
  "list_all primitive xs \<Longrightarrow> \<exists>ss. sequence (map (\<lambda>x. if nullish x then Inr [] else ToString x) xs) = Inr ss"
proof (induction xs)
  case Nil
  then show ?case by simp
next
  case (Cons x xs)
  then obtain ss where "sequence (map (\<lambda>x. if nullish x then Inr [] else ToString x) xs) = Inr ss"
    by auto
  moreover from Cons.prems obtain s where "(if nullish x then Inr [] else ToString x) = Inr s"
    using ToString_primitive [of x] by (cases "nullish x") auto
  ultimately show ?case by simp
qed

lemma ToString_array_of_primitives: "list_all primitive xs \<Longrightarrow> \<exists>s. ToString (JArr xs) = Inr s"
  using sequence_primitives [of xs] by auto

lemma call_toString_primitive:
  "primitive v \<Longrightarrow> \<not> nullish v \<Longrightarrow> \<exists>s. call_toString what v = Inr s"
  by (cases v) (simp_all add: call_toString_def)

lemma query_entry_total: "(present \<Longrightarrow> \<exists>s. v = Inr s) \<Longrightarrow> \<exists>q. query_entry present k v = Inr q"
  by (auto simp: query_entry_def sbind_def)

lemma queryParams_total:
  assumes "\<not> nullish p"
    and "primitive (get p ''limit'')" and "primitive (get p ''offset'')"
    and "primitive (get p ''contain'')" and "primitive (get p ''category'')"
    and "get p ''tags'' = JUndefined \<or> (\<exists>xs. get p ''tags'' = JArr xs \<and> list_all primitive xs)"
    and "primitive (get p ''from'')" and "primitive (get p ''to'')"
    and "primitive (get p ''is_favorite'')" and "get p ''is_favorite'' \<noteq> JNull"
  shows "\<exists>q. queryParams p = Inr q"
proof -
  have t: "truthy v \<Longrightarrow> \<not> nullish v" for v by (cases v) simp_all
  have "\<exists>q. query_entry (truthy (get p ''limit'')) ''limit''
                 (call_toString ''params.limit'' (get p ''limit'')) = Inr q"
    by (rule query_entry_total) (rule call_toString_primitive [OF assms(2) t])
  then obtain q1 where q1: "query_entry (truthy (get p ''limit'')) ''limit''
                 (call_toString ''params.limit'' (get p ''limit'')) = Inr q1" ..
  have "\<exists>q. query_entry (truthy (get p ''offset'')) ''offset''
                 (call_toString ''params.offset'' (get p ''offset'')) = Inr q"
    by (rule query_entry_total) (rule call_toString_primitive [OF assms(3) t])
  then obtain q2 where q2: "query_entry (truthy (get p ''offset'')) ''offset''
                 (call_toString ''params.offset'' (get p ''offset'')) = Inr q2" ..
  have "\<exists>q. query_entry (truthy (get p ''contain'')) ''contain''
                 (ToString (get p ''contain'')) = Inr q"
    by (rule query_entry_total) (rule ToString_primitive [OF assms(4)])
  then obtain q3 where q3: "query_entry (truthy (get p ''contain'')) ''contain''
                 (ToString (get p ''contain'')) = Inr q3" ..
  have "\<exists>q. query_entry (truthy (get p ''category'')) ''category''
                 (ToString (get p ''category'')) = Inr q"
    by (rule query_entry_total) (rule ToString_primitive [OF assms(5)])
  then obtain q4 where q4: "query_entry (truthy (get p ''category'')) ''category''
                 (ToString (get p ''category'')) = Inr q4" ..
  have h: "truthy (get p ''tags'') \<and> truthy (get (get p ''tags'') ''length'')
        \<Longrightarrow> \<exists>s. tags_join (get p ''tags'') = Inr s"
    using assms(6) ToString_array_of_primitives by (auto simp: tags_join_def)
  have "\<exists>q. query_entry (truthy (get p ''tags'') \<and> truthy (get (get p ''tags'') ''length''))
                 ''tags'' (tags_join (get p ''tags'')) = Inr q"
    by (rule query_entry_total) (rule h)
  then obtain q5 where q5: "query_entry (truthy (get p ''tags'') \<and> truthy (get (get p ''tags'') ''length''))
                 ''tags'' (tags_join (get p ''tags'')) = Inr q5" ..
  have "\<exists>q. query_entry (truthy (get p ''from'')) ''from''
                 (ToString (get p ''from'')) = Inr q"
    by (rule query_entry_total) (rule ToString_primitive [OF assms(7)])
  then obtain q6 where q6: "query_entry (truthy (get p ''from'')) ''from''
                 (ToString (get p ''from'')) = Inr q6" ..
  have "\<exists>q. query_entry (truthy (get p ''to'')) ''to''
                 (ToString (get p ''to'')) = Inr q"
    by (rule query_entry_total) (rule ToString_primitive [OF assms(8)])
  then obtain q7 where q7: "query_entry (truthy (get p ''to'')) ''to''
                 (ToString (get p ''to'')) = Inr q7" ..
  have f: "get p ''is_favorite'' \<noteq> JUndefined \<Longrightarrow> \<not> nullish (get p ''is_favorite'')"
    using assms(10) by (cases "get p ''is_favorite''") simp_all
  have "\<exists>q. query_entry (get p ''is_favorite'' \<noteq> JUndefined) ''is_favorite''
                 (call_toString ''params.is_favorite'' (get p ''is_favorite'')) = Inr q"
    by (rule query_entry_total) (rule call_toString_primitive [OF assms(9) f])
  then obtain q8 where q8: "query_entry (get p ''is_favorite'' \<noteq> JUndefined) ''is_favorite''
                 (call_toString ''params.is_favorite'' (get p ''is_favorite'')) = Inr q8" ..
  show ?thesis
    unfolding queryParams_def using assms(1)
    by (simp add: q1 q2 q3 q4 q5 q6 q7 q8 sbind_def)
qed

subsection \<open>Statistics: grouping by date, and the date range\<close>








end
